theory Spec2Isabelle
  imports Complex_Main
begin

section \<open>The ECS worker validation flow (\<^verbatim>\<open>sample_flow.py\<close>)\<close>

text \<open>
  The module consists of three collectors (\<^verbatim>\<open>get_system_info\<close>, \<^verbatim>\<open>test_connectivity\<close>,
  \<^verbatim>\<open>check_resources\<close>) and the entry point \<^verbatim>\<open>validation_flow\<close>. Everything the collectors
  read from outside (the process environment, the clock, the platform module, the two HTTP
  calls, the JSON decoder, psutil) is gathered in one record, \<open>world\<close>, and passed in; each
  Python function becomes a function of the world that returns either the exception it
  raises (\<open>Inl\<close>) or its return value (\<open>Inr\<close>).

  Modelling decisions:
  \<^item> The Prefect decorators \<^verbatim>\<open>@task\<close> and \<^verbatim>\<open>@flow\<close> are taken as plain calls: a task called
    in a flow returns its value or raises its exception.
  \<^item> \<^verbatim>\<open>print\<close> writes to standard output and influences no returned value, but it can
    raise (\<^verbatim>\<open>UnicodeEncodeError\<close> when the stream cannot encode the text). The
    definitions named after the four functions give what each function computes, the
    writes taken to succeed; \<open>get_system_info_io\<close> and \<open>test_connectivity_io\<close> are the two
    collectors with their writes, each an uncaught call that may raise. Text is a string
    of bytes, in UTF-8.
  \<^item> A \<open>py_exception\<close> stands for an instance of Python's class \<^verbatim>\<open>Exception\<close>, which is
    what \<^verbatim>\<open>except Exception\<close> catches.
  \<^item> Python floats are modelled by exact rationals. For a byte counter below \<open>2 ^ 53\<close> the
    quotient by \<open>1024 ^ 3\<close> is exact in binary floating point and \<^verbatim>\<open>round(x, 2)\<close> is
    correctly rounded, so for the gigabyte fields the rational of the model is the decimal
    that the returned float prints as. For \<^verbatim>\<open>disk_percent\<close> the code rounds the quotient and
    the product to doubles before \<^verbatim>\<open>round\<close>, and the model does not: next to a tie the two
    can differ by one hundredth. Only bounds are proved of that field; they hold of the
    float as well, since rounding to a double is monotone and keeps 0, 1 and 100.
\<close>

subsection \<open>Values\<close>

text \<open>An exception: its class name and what \<^verbatim>\<open>str(e)\<close> returns.\<close>

datatype py_exception = PyException (exc_class: string) (exc_str: string)

text \<open>
  What \<^verbatim>\<open>json.loads\<close> returns: \<^verbatim>\<open>None\<close>, a bool, an int, a float, a str, a list or a dict.
  A dict is an association list in insertion order; \<^verbatim>\<open>d.get(k)\<close> is \<open>dict_get\<close>.
\<close>

datatype json =
    JNull
  | JBool bool
  | JInt int
  | JFloat rat
  | JString string
  | JArray "json list"
  | JObject "(string \<times> json) list"

text \<open>\<^verbatim>\<open>d.get(k)\<close> on a dict: the value, or \<^verbatim>\<open>None\<close> when the key is missing.\<close>

definition dict_get :: "(string \<times> json) list \<Rightarrow> string \<Rightarrow> json" where
  "dict_get d k = (case map_of d k of None \<Rightarrow> JNull | Some v \<Rightarrow> v)"

text \<open>
  \<^verbatim>\<open>v.get(k)\<close> on a decoded JSON value: only a dict has the method; on every other value
  the attribute lookup raises \<^verbatim>\<open>AttributeError\<close>.
\<close>

definition attribute_error :: "string \<Rightarrow> py_exception" where
  "attribute_error ty =
     PyException ''AttributeError''
       ([CHR 0x27] @ ty @ [CHR 0x27] @ '' object has no attribute '' @ [CHR 0x27] @ ''get'' @ [CHR 0x27])"

fun json_get :: "json \<Rightarrow> string \<Rightarrow> py_exception + json" where
  "json_get (JObject d) k = Inr (dict_get d k)"
| "json_get JNull k = Inl (attribute_error ''NoneType'')"
| "json_get (JBool b) k = Inl (attribute_error ''bool'')"
| "json_get (JInt i) k = Inl (attribute_error ''int'')"
| "json_get (JFloat f) k = Inl (attribute_error ''float'')"
| "json_get (JString s) k = Inl (attribute_error ''str'')"
| "json_get (JArray xs) k = Inl (attribute_error ''list'')"

text \<open>The object \<^verbatim>\<open>urlopen\<close> returns: all the code does with it is \<^verbatim>\<open>response.read()\<close>.\<close>

datatype http_response = HTTPResponse (read: "py_exception + string")

text \<open>A percentage as psutil reports one: \<^verbatim>\<open>virtual_memory().percent\<close> is the share of the
  total that is not available, which psutil computes itself and keeps between 0 and 100.
  The code under verification reads the field and never computes it, so that range is a
  property of the value it receives.\<close>

typedef percentage = "{x :: rat. 0 \<le> x \<and> x \<le> 100}"
  morphisms percent_value Percentage
  by (rule exI [of _ 0]) simp

text \<open>The named tuples of \<^verbatim>\<open>psutil.virtual_memory()\<close> and \<^verbatim>\<open>psutil.disk_usage(path)\<close>,
  with the fields the code reads. Byte counts are natural numbers.\<close>

record svmem =
  mem_total :: nat
  mem_used :: nat
  mem_percent :: percentage

record sdiskusage =
  disk_total :: nat
  disk_used :: nat

subsection \<open>The world\<close>

record world =
  os_environ :: "string \<rightharpoonup> string"
  datetime_now_isoformat :: "nat \<Rightarrow> string"
    \<comment> \<open>\<^verbatim>\<open>datetime.now().isoformat()\<close> at its n-th evaluation in a run\<close>
  platform_platform :: string
  platform_python_version :: string
  urlopen :: "string \<Rightarrow> nat \<Rightarrow> py_exception + http_response"
    \<comment> \<open>\<^verbatim>\<open>urllib.request.urlopen(url, timeout=t)\<close>\<close>
  bytes_decode :: "string \<Rightarrow> py_exception + string"
    \<comment> \<open>\<^verbatim>\<open>b.decode()\<close>\<close>
  json_loads :: "string \<Rightarrow> py_exception + json"
  psutil_cpu_percent :: "nat \<Rightarrow> py_exception + rat"
    \<comment> \<open>\<^verbatim>\<open>psutil.cpu_percent(interval=i)\<close>\<close>
  psutil_virtual_memory :: "py_exception + svmem"
  psutil_disk_usage :: "string \<Rightarrow> py_exception + sdiskusage"
  stdout_print :: "string \<Rightarrow> py_exception option"
    \<comment> \<open>\<^verbatim>\<open>print(text)\<close>: \<open>None\<close> when the line is written, \<open>Some e\<close> when the call raises \<open>e\<close>\<close>

text \<open>\<^verbatim>\<open>os.environ.get(k, default)\<close>\<close>

definition environ_get :: "world \<Rightarrow> string \<Rightarrow> string \<Rightarrow> string" where
  "environ_get w k dflt = (case os_environ w k of None \<Rightarrow> dflt | Some v \<Rightarrow> v)"

text \<open>A sequence of \<^verbatim>\<open>print\<close> calls outside any \<^verbatim>\<open>try\<close>: the first one that raises ends
  it, and \<open>None\<close> says that every line was written.\<close>

fun print_all :: "world \<Rightarrow> string list \<Rightarrow> py_exception option" where
  "print_all w [] = None"
| "print_all w (line # lines) =
     (case stdout_print w line of
        Some e \<Rightarrow> Some e
      | None \<Rightarrow> print_all w lines)"

subsection \<open>Records returned\<close>

record SystemInfo =
  timestamp :: string
  platform :: string
  python_version :: string
  container_hostname :: string
  aws_region :: string
  prefect_api_url :: string
  task_family :: string
  cluster_name :: string

text \<open>One entry of \<^verbatim>\<open>tests\<close>. A success entry has the key \<^verbatim>\<open>result\<close> and no key \<^verbatim>\<open>error\<close>;
  a failed entry has \<^verbatim>\<open>error\<close> and no \<^verbatim>\<open>result\<close>.\<close>

record ConnectivityResult =
  test :: string
  status :: string
  result :: "json option"
  error :: "string option"

record ResourceUsage =
  cpu_percent :: rat
  memory_total_gb :: rat
  memory_used_gb :: rat
  memory_percent :: rat
  disk_total_gb :: rat
  disk_used_gb :: rat
  disk_percent :: rat

record ValidationSummary =
  flow_status :: string
  summary_timestamp :: string
    \<comment> \<open>the key \<^verbatim>\<open>timestamp\<close> of the summary\<close>
  system_info :: SystemInfo
  connectivity_tests :: "ConnectivityResult list"
  resource_usage :: ResourceUsage
  validation_success :: bool

subsection \<open>\<^verbatim>\<open>get_system_info\<close>\<close>

text \<open>Lines 15 to 24 and the \<^verbatim>\<open>return\<close>: the dict that the function builds. The lines that
  print it come with \<open>get_system_info_io\<close> below.\<close>

definition get_system_info :: "world \<Rightarrow> py_exception + SystemInfo" where
  "get_system_info w = Inr
     \<lparr> timestamp = datetime_now_isoformat w 0,
       platform = platform_platform w,
       python_version = platform_python_version w,
       container_hostname = environ_get w ''HOSTNAME'' ''unknown'',
       aws_region = environ_get w ''AWS_DEFAULT_REGION'' ''unknown'',
       prefect_api_url = environ_get w ''PREFECT_API_URL'' ''not_set'',
       task_family = environ_get w ''ECS_TASK_FAMILY'' ''unknown'',
       cluster_name = environ_get w ''ECS_CLUSTER'' ''unknown'' \<rparr>"

text \<open>\<^verbatim>\<open>info.items()\<close>, in the order of the dict display.\<close>

definition system_info_items :: "SystemInfo \<Rightarrow> (string \<times> string) list" where
  "system_info_items info =
     [(''timestamp'', timestamp info),
      (''platform'', platform info),
      (''python_version'', python_version info),
      (''container_hostname'', container_hostname info),
      (''aws_region'', aws_region info),
      (''prefect_api_url'', prefect_api_url info),
      (''task_family'', task_family info),
      (''cluster_name'', cluster_name info)]"

text \<open>The lines that lines 26 to 28 print: the header, which starts with the character
  U+1F50D, then one line for each item.\<close>

definition system_info_lines :: "SystemInfo \<Rightarrow> string list" where
  "system_info_lines info =
     ([CHR 0xF0, CHR 0x9F, CHR 0x94, CHR 0x8D] @ '' System Information:'') #
     map (\<lambda>(key, val). ''  '' @ key @ '': '' @ val) (system_info_items info)"

text \<open>The whole function: the dict is built, printed and returned.\<close>

definition get_system_info_io :: "world \<Rightarrow> py_exception + SystemInfo" where
  "get_system_info_io w =
     (case get_system_info w of
        Inl e \<Rightarrow> Inl e
      | Inr info \<Rightarrow>
          (case print_all w (system_info_lines info) of
             Some e \<Rightarrow> Inl e
           | None \<Rightarrow> Inr info))"

subsection \<open>\<^verbatim>\<open>test_connectivity\<close>\<close>

text \<open>\<^verbatim>\<open>json.loads(response.read().decode())\<close> after \<^verbatim>\<open>response = urlopen(url, timeout=t)\<close>:
  the first of the four calls that raises ends the evaluation.\<close>

definition fetch_json :: "world \<Rightarrow> string \<Rightarrow> nat \<Rightarrow> py_exception + json" where
  "fetch_json w url t =
     (case urlopen w url t of
        Inl e \<Rightarrow> Inl e
      | Inr response \<Rightarrow>
          (case read response of
             Inl e \<Rightarrow> Inl e
           | Inr body \<Rightarrow>
               (case bytes_decode w body of
                  Inl e \<Rightarrow> Inl e
                | Inr text \<Rightarrow> json_loads w text)))"

definition success_entry :: "string \<Rightarrow> json \<Rightarrow> ConnectivityResult" where
  "success_entry name payload =
     \<lparr> test = name, status = ''success'', result = Some payload, error = None \<rparr>"

definition failed_entry :: "string \<Rightarrow> py_exception \<Rightarrow> ConnectivityResult" where
  "failed_entry name e =
     \<lparr> test = name, status = ''failed'', result = None, error = Some (exc_str e) \<rparr>"

text \<open>The body of the first \<^verbatim>\<open>try\<close> (lines 42 to 48): the entry it appends, or the exception
  that leaves it.\<close>

definition internet_try :: "world \<Rightarrow> py_exception + ConnectivityResult" where
  "internet_try w =
     (case fetch_json w ''https://httpbin.org/ip'' 10 of
        Inl e \<Rightarrow> Inl e
      | Inr ip_info \<Rightarrow> Inr (success_entry ''internet_connectivity'' ip_info))"

text \<open>The dict display of lines 66 to 70; the three \<^verbatim>\<open>.get\<close> calls run in order.\<close>

definition metadata_payload :: "json \<Rightarrow> py_exception + json" where
  "metadata_payload task_metadata =
     (case json_get task_metadata ''TaskARN'' of
        Inl e \<Rightarrow> Inl e
      | Inr arn \<Rightarrow>
          (case json_get task_metadata ''Cluster'' of
             Inl e \<Rightarrow> Inl e
           | Inr cluster \<Rightarrow>
               (case json_get task_metadata ''Family'' of
                  Inl e \<Rightarrow> Inl e
                | Inr family \<Rightarrow>
                    Inr (JObject [(''task_arn'', arn), (''cluster'', cluster),
                                  (''family'', family)]))))"

text \<open>The body of the second \<^verbatim>\<open>try\<close> (lines 59 to 71): \<open>Inr None\<close> when the \<^verbatim>\<open>if\<close> is not
  taken and nothing is appended. The guard \<^verbatim>\<open>if metadata_uri:\<close> is false for \<^verbatim>\<open>None\<close> and
  for the empty string.\<close>

definition metadata_try :: "world \<Rightarrow> py_exception + ConnectivityResult option" where
  "metadata_try w =
     (case os_environ w ''ECS_CONTAINER_METADATA_URI_V4'' of
        None \<Rightarrow> Inr None
      | Some metadata_uri \<Rightarrow>
          if metadata_uri = [] then Inr None
          else
            (case fetch_json w (metadata_uri @ ''/task'') 5 of
               Inl e \<Rightarrow> Inl e
             | Inr task_metadata \<Rightarrow>
                 (case metadata_payload task_metadata of
                    Inl e \<Rightarrow> Inl e
                  | Inr payload \<Rightarrow> Inr (Some (success_entry ''ecs_metadata'' payload)))))"

text \<open>\<^verbatim>\<open>try: body except Exception as e: handler(e)\<close>\<close>

definition try_except :: "py_exception + 'a \<Rightarrow> (py_exception \<Rightarrow> py_exception + 'a) \<Rightarrow> py_exception + 'a" where
  "try_except body handler = (case body of Inl e \<Rightarrow> handler e | Inr v \<Rightarrow> Inr v)"

text \<open>Lines 38 to 77 and the \<^verbatim>\<open>return\<close>: the list that the two \<^verbatim>\<open>try\<close> statements build. The
  loop that prints it comes with \<open>test_connectivity_io\<close> below.\<close>

definition test_connectivity :: "world \<Rightarrow> py_exception + ConnectivityResult list" where
  "test_connectivity w =
     (let tests0 = [] in
      case try_except
             (case internet_try w of Inl e \<Rightarrow> Inl e | Inr entry \<Rightarrow> Inr (tests0 @ [entry]))
             (\<lambda>e. Inr (tests0 @ [failed_entry ''internet_connectivity'' e])) of
        Inl e \<Rightarrow> Inl e
      | Inr tests1 \<Rightarrow>
          (case try_except
                  (case metadata_try w of
                     Inl e \<Rightarrow> Inl e
                   | Inr None \<Rightarrow> Inr tests1
                   | Inr (Some entry) \<Rightarrow> Inr (tests1 @ [entry]))
                  (\<lambda>e. Inr (tests1 @ [failed_entry ''ecs_metadata'' e])) of
             Inl e \<Rightarrow> Inl e
           | Inr tests2 \<Rightarrow> Inr tests2))"

text \<open>The lines that one round of the loop of lines 80 to 84 prints: the status line, with
  U+2705 for a success and U+274C otherwise, and the error line of a failed entry.\<close>

definition entry_lines :: "ConnectivityResult \<Rightarrow> string list" where
  "entry_lines t =
     (let status_emoji =
            (if status t = ''success'' then [CHR 0xE2, CHR 0x9C, CHR 0x85]
             else [CHR 0xE2, CHR 0x9D, CHR 0x8C])
      in [''  '' @ status_emoji @ '' '' @ test t @ '': '' @ status t] @
         (if status t = ''failed''
          then [''    Error: '' @ (case error t of None \<Rightarrow> ''Unknown error'' | Some msg \<Rightarrow> msg)]
          else []))"

definition connectivity_lines :: "ConnectivityResult list \<Rightarrow> string list" where
  "connectivity_lines tests = ''Connectivity Test Results:'' # concat (map entry_lines tests)"

text \<open>The whole function: the two \<^verbatim>\<open>try\<close> statements build the list, lines 79 to 84 print
  it outside any \<^verbatim>\<open>try\<close>, and the list is returned.\<close>

definition test_connectivity_io :: "world \<Rightarrow> py_exception + ConnectivityResult list" where
  "test_connectivity_io w =
     (case test_connectivity w of
        Inl e \<Rightarrow> Inl e
      | Inr tests \<Rightarrow>
          (case print_all w (connectivity_lines tests) of
             Some e \<Rightarrow> Inl e
           | None \<Rightarrow> Inr tests))"

subsection \<open>\<^verbatim>\<open>check_resources\<close>\<close>

text \<open>The built-in \<^verbatim>\<open>round(x, ndigits)\<close> on a float: the multiple of \<open>10 ^ -ndigits\<close>
  nearest to \<open>x\<close>, a tie going to the even multiple.\<close>

definition round_half_even :: "rat \<Rightarrow> int" where
  "round_half_even x =
     (let f = \<lfloor>x\<rfloor>; d = x - of_int f in
      if d < 1 / 2 then f
      else if 1 / 2 < d then f + 1
      else if even f then f else f + 1)"

definition py_round :: "rat \<Rightarrow> nat \<Rightarrow> rat" where
  "py_round x ndigits = of_int (round_half_even (x * 10 ^ ndigits)) / 10 ^ ndigits"

text \<open>\<^verbatim>\<open>a / b\<close> on two ints.\<close>

definition true_div :: "nat \<Rightarrow> nat \<Rightarrow> py_exception + rat" where
  "true_div a b =
     (if b = 0 then Inl (PyException ''ZeroDivisionError'' ''division by zero'')
      else Inr (of_nat a / of_nat b))"

text \<open>\<^verbatim>\<open>n / (1024**3)\<close>: the divisor is a non-zero constant.\<close>

definition bytes_to_gb :: "nat \<Rightarrow> rat" where
  "bytes_to_gb n = of_nat n / 1024 ^ 3"

text \<open>None of the three psutil calls is inside a \<^verbatim>\<open>try\<close>: the first exception leaves the
  function. The dict display can raise only in \<^verbatim>\<open>disk.used / disk.total\<close>.\<close>

definition check_resources :: "world \<Rightarrow> py_exception + ResourceUsage" where
  "check_resources w =
     (case psutil_cpu_percent w 1 of
        Inl e \<Rightarrow> Inl e
      | Inr cpu \<Rightarrow>
          (case psutil_virtual_memory w of
             Inl e \<Rightarrow> Inl e
           | Inr memory \<Rightarrow>
               (case psutil_disk_usage w ''/'' of
                  Inl e \<Rightarrow> Inl e
                | Inr disk \<Rightarrow>
                    (case true_div (disk_used disk) (disk_total disk) of
                       Inl e \<Rightarrow> Inl e
                     | Inr ratio \<Rightarrow> Inr
                         \<lparr> cpu_percent = cpu,
                           memory_total_gb = py_round (bytes_to_gb (mem_total memory)) 2,
                           memory_used_gb = py_round (bytes_to_gb (mem_used memory)) 2,
                           memory_percent = percent_value (mem_percent memory),
                           disk_total_gb = py_round (bytes_to_gb (disk_total disk)) 2,
                           disk_used_gb = py_round (bytes_to_gb (disk_used disk)) 2,
                           disk_percent = py_round (ratio * 100) 2 \<rparr>))))"

subsection \<open>\<^verbatim>\<open>validation_flow\<close>\<close>

text \<open>The built-in \<^verbatim>\<open>all\<close>: it returns \<^verbatim>\<open>False\<close> at the first false element and \<^verbatim>\<open>True\<close>
  when the iterable is exhausted.\<close>

fun py_all :: "bool list \<Rightarrow> bool" where
  "py_all [] = True"
| "py_all (x # xs) = (if \<not> x then False else py_all xs)"

text \<open>The dict display of lines 131 to 140. The clock is read for the second time here.\<close>

definition make_summary ::
  "world \<Rightarrow> SystemInfo \<Rightarrow> ConnectivityResult list \<Rightarrow> ResourceUsage \<Rightarrow> ValidationSummary" where
  "make_summary w info connectivity_results resource_info =
     \<lparr> flow_status = ''completed'',
       summary_timestamp = datetime_now_isoformat w 1,
       system_info = info,
       connectivity_tests = connectivity_results,
       resource_usage = resource_info,
       validation_success = py_all (map (\<lambda>t. status t = ''success'') connectivity_results) \<rparr>"

definition validation_flow :: "world \<Rightarrow> py_exception + ValidationSummary" where
  "validation_flow w =
     (case get_system_info w of
        Inl e \<Rightarrow> Inl e
      | Inr info \<Rightarrow>
          (case test_connectivity w of
             Inl e \<Rightarrow> Inl e
           | Inr connectivity_results \<Rightarrow>
               (case check_resources w of
                  Inl e \<Rightarrow> Inl e
                | Inr resource_info \<Rightarrow>
                    Inr (make_summary w info connectivity_results resource_info))))"

text \<open>What the first \<^verbatim>\<open>try\<close> statement appends, whichever way it ends.\<close>

definition first_entry :: "world \<Rightarrow> ConnectivityResult" where
  "first_entry w =
     (case internet_try w of
        Inl e \<Rightarrow> failed_entry ''internet_connectivity'' e
      | Inr entry \<Rightarrow> entry)"

subsection \<open>Rounding as the specification words it\<close>

text \<open>The number of decimal digits of a natural number (one digit for 0).\<close>

fun decimal_digits :: "nat \<Rightarrow> nat" where
  "decimal_digits n = (if n < 10 then 1 else Suc (decimal_digits (n div 10)))"

declare decimal_digits.simps [simp del]

text \<open>The decimal exponent \<open>e\<close> of a positive rational: \<open>10 ^ e \<le> a < 10 ^ (e + 1)\<close>.\<close>

definition decimal_exponent :: "rat \<Rightarrow> int" where
  "decimal_exponent a =
     (if 1 \<le> a then int (decimal_digits (nat \<lfloor>a\<rfloor>)) - 1
      else - int (decimal_digits (nat (\<lceil>1 / a\<rceil> - 1))))"

text \<open>Rounding to \<open>n\<close> significant figures, the rounding the specification's data model
  names: the leading \<open>n\<close> decimal digits are kept, whatever the position of the point.\<close>

definition round_significant :: "rat \<Rightarrow> nat \<Rightarrow> rat" where
  "round_significant x n =
     (if x = 0 then 0
      else
        let unit = 10 powi (decimal_exponent \<bar>x\<bar> - (int n - 1))
        in sgn x * of_int (round_half_even (\<bar>x\<bar> / unit)) * unit)"

text \<open>\<open>r\<close> is a multiple of one hundredth at distance at most half a hundredth of \<open>x\<close>.\<close>

definition nearest_hundredth :: "rat \<Rightarrow> rat \<Rightarrow> bool" where
  "nearest_hundredth x r \<longleftrightarrow> r * 100 = of_int \<lfloor>r * 100\<rfloor> \<and> \<bar>r - x\<bar> \<le> 1 / 200"

subsection \<open>Sample worlds\<close>

text \<open>A container whose two endpoints answer, with the part of \<^verbatim>\<open>json.loads\<close> that the
  bodies below need.\<close>

definition sample_urlopen :: "string \<Rightarrow> nat \<Rightarrow> py_exception + http_response" where
  \<open>sample_urlopen url t =
     (if url = ''https://httpbin.org/ip'' then Inr (HTTPResponse (Inr ''{"origin": "1.2.3.4"}''))
      else if url = ''http://169.254.170.2/v4/abc/task''
        then Inr (HTTPResponse (Inr ''{"TaskARN":"a","Cluster":"c","Family":"f"}''))
      else if url = ''http://169.254.170.2/v4/empty/task'' then Inr (HTTPResponse (Inr ''{}''))
      else if url = ''http://169.254.170.2/v4/list/task'' then Inr (HTTPResponse (Inr ''[1, 2]''))
      else Inl (PyException ''URLError'' ''<urlopen error timed out>''))\<close>

definition sample_json_loads :: "string \<Rightarrow> py_exception + json" where
  \<open>sample_json_loads text =
     (if text = ''{"origin": "1.2.3.4"}'' then Inr (JObject [(''origin'', JString ''1.2.3.4'')])
      else if text = ''{"TaskARN":"a","Cluster":"c","Family":"f"}''
        then Inr (JObject [(''TaskARN'', JString ''a''), (''Cluster'', JString ''c''),
                           (''Family'', JString ''f'')])
      else if text = ''{}'' then Inr (JObject [])
      else if text = ''[1, 2]'' then Inr (JArray [JInt 1, JInt 2])
      else Inl (PyException ''JSONDecodeError'' ''Expecting value: line 1 column 1 (char 0)''))\<close>

definition sample_world :: world where
  "sample_world =
     \<lparr> os_environ = Map.empty,
       datetime_now_isoformat =
         (\<lambda>n. if n = 0 then ''2024-05-01T12:00:00.000000'' else ''2024-05-01T12:00:02.500000''),
       platform_platform = ''Linux-5.10.0-x86_64-with-glibc2.31'',
       platform_python_version = ''3.11.4'',
       urlopen = sample_urlopen,
       bytes_decode = Inr,
       json_loads = sample_json_loads,
       psutil_cpu_percent = (\<lambda>i. Inr (25 / 2)),
       psutil_virtual_memory =
         Inr \<lparr> mem_total = 8589934592, mem_used = 2147483648,
               mem_percent = Percentage (131 / 5) \<rparr>,
       psutil_disk_usage =
         (\<lambda>path. Inr \<lparr> disk_total = 123456789012, disk_used = 30864197253 \<rparr>),
       stdout_print = (\<lambda>text. None) \<rparr>"

text \<open>The same container with some variables of the environment set.\<close>

definition with_environ :: "(string \<times> string) list \<Rightarrow> world" where
  "with_environ bindings = sample_world \<lparr> os_environ := map_of bindings \<rparr>"

text \<open>A container without network: every \<^verbatim>\<open>urlopen\<close> raises.\<close>

definition offline_world :: world where
  "offline_world =
     sample_world
       \<lparr> os_environ := [''ECS_CONTAINER_METADATA_URI_V4'' \<mapsto> ''http://169.254.170.2/v4/abc''],
         urlopen := (\<lambda>url t. Inl (PyException ''URLError'' ''<urlopen error timed out>'')) \<rparr>"

text \<open>A container where reading the root file system fails.\<close>

definition no_disk_world :: world where
  "no_disk_world =
     sample_world
       \<lparr> psutil_disk_usage :=
           (\<lambda>path. Inl (PyException ''FileNotFoundError''
                           ''[Errno 2] No such file or directory'')) \<rparr>"

text \<open>A standard output that encodes ASCII only, as under \<^verbatim>\<open>PYTHONIOENCODING=ascii\<close>:
  \<^verbatim>\<open>print\<close> raises on a text with a byte above 127. The message of the exception, which
  in Python names the character and its position, is abridged.\<close>

definition ascii_print :: "string \<Rightarrow> py_exception option" where
  "ascii_print text =
     (if list_all (\<lambda>c. (of_char c :: nat) < 128) text then None
      else Some (PyException ''UnicodeEncodeError''
                   ''ascii codec cannot encode character: ordinal not in range(128)''))"

definition ascii_world :: world where
  "ascii_world =
     sample_world
       \<lparr> os_environ := [''PYTHONIOENCODING'' \<mapsto> ''ascii''],
         stdout_print := ascii_print \<rparr>"

text \<open>A container whose endpoints answer with a page that is not JSON, the metadata
  variable being set.\<close>

definition garbled_world :: world where
  "garbled_world =
     sample_world
       \<lparr> os_environ := [''ECS_CONTAINER_METADATA_URI_V4'' \<mapsto> ''http://169.254.170.2/v4/abc''],
         urlopen := (\<lambda>url t. Inr (HTTPResponse (Inr ''<html>Bad Gateway</html>''))) \<rparr>"

text \<open>What the flow returns in the sample container.\<close>

definition sample_summary :: ValidationSummary where
  "sample_summary =
     \<lparr> flow_status = ''completed'',
       summary_timestamp = ''2024-05-01T12:00:02.500000'',
       system_info =
         \<lparr> timestamp = ''2024-05-01T12:00:00.000000'',
           platform = ''Linux-5.10.0-x86_64-with-glibc2.31'',
           python_version = ''3.11.4'',
           container_hostname = ''unknown'',
           aws_region = ''unknown'',
           prefect_api_url = ''not_set'',
           task_family = ''unknown'',
           cluster_name = ''unknown'' \<rparr>,
       connectivity_tests =
         [\<lparr> test = ''internet_connectivity'', status = ''success'',
            result = Some (JObject [(''origin'', JString ''1.2.3.4'')]), error = None \<rparr>],
       resource_usage =
         \<lparr> cpu_percent = 25 / 2, memory_total_gb = 8, memory_used_gb = 2,
           memory_percent = 131 / 5, disk_total_gb = 11498 / 100, disk_used_gb = 2874 / 100,
           disk_percent = 25 \<rparr>,
       validation_success = True \<rparr>"

text \<open>The exception of a request that times out.\<close>

definition timed_out :: py_exception where
  "timed_out = PyException ''URLError'' ''<urlopen error timed out>''"

text \<open>Environments for the sample container.\<close>

definition partly_set :: "(string \<times> string) list" where
  "partly_set = [(''HOSTNAME'', ''ip-10-0-1-17''), (''PREFECT_API_URL'', ''''),
                 (''ECS_CLUSTER'', ''prefect-cluster'')]"

definition empty_uri :: "(string \<times> string) list" where
  "empty_uri = [(''ECS_CONTAINER_METADATA_URI_V4'', '''')]"

definition list_uri :: "(string \<times> string) list" where
  "list_uri = [(''ECS_CONTAINER_METADATA_URI_V4'', ''http://169.254.170.2/v4/list'')]"

definition task_uri :: "(string \<times> string) list" where
  "task_uri = [(''ECS_CONTAINER_METADATA_URI_V4'', ''http://169.254.170.2/v4/abc'')]"

definition bare_uri :: "(string \<times> string) list" where
  "bare_uri = [(''ECS_CONTAINER_METADATA_URI_V4'', ''http://169.254.170.2/v4/empty'')]"

section \<open>Properties\<close>

lemmas world_defs = sample_world_def with_environ_def offline_world_def no_disk_world_def
  sample_urlopen_def sample_json_loads_def

lemmas probe_defs = test_connectivity_def try_except_def internet_try_def metadata_try_def
  fetch_json_def metadata_payload_def success_entry_def failed_entry_def dict_get_def

subsection \<open>The shape of the prober's result\<close>

lemma py_all_map: "py_all (map P xs) = (\<forall>x\<in>set xs. P x)"
  by (induction xs) auto

lemma test_first_entry: "test (first_entry w) = ''internet_connectivity''"
  by (simp add: first_entry_def internet_try_def success_entry_def failed_entry_def
      split: sum.splits)

lemma test_connectivity_skipped:
  "metadata_try w = Inr None \<Longrightarrow> test_connectivity w = Inr [first_entry w]"
  by (simp add: test_connectivity_def try_except_def first_entry_def split: sum.splits)

lemma test_connectivity_appended:
  "metadata_try w = Inr (Some entry) \<Longrightarrow> test_connectivity w = Inr [first_entry w, entry]"
  by (simp add: test_connectivity_def try_except_def first_entry_def split: sum.splits)

lemma test_connectivity_raised:
  "metadata_try w = Inl e \<Longrightarrow>
     test_connectivity w = Inr [first_entry w, failed_entry ''ecs_metadata'' e]"
  by (simp add: test_connectivity_def try_except_def first_entry_def split: sum.splits)

lemma metadata_try_unset:
  "os_environ w ''ECS_CONTAINER_METADATA_URI_V4'' = None \<Longrightarrow> metadata_try w = Inr None"
  by (simp add: metadata_try_def)

lemma metadata_try_empty:
  "os_environ w ''ECS_CONTAINER_METADATA_URI_V4'' = Some [] \<Longrightarrow> metadata_try w = Inr None"
  by (simp add: metadata_try_def)

lemma metadata_payload_object:
  "metadata_payload (JObject d) =
     Inr (JObject [(''task_arn'', dict_get d ''TaskARN''), (''cluster'', dict_get d ''Cluster''),
                   (''family'', dict_get d ''Family'')])"
  by (simp add: metadata_payload_def)

lemma metadata_payload_not_object:
  "(\<forall>d. v \<noteq> JObject d) \<Longrightarrow> isl (metadata_payload v)"
  by (cases v) (simp_all add: metadata_payload_def)

lemma metadata_try_object:
  assumes "os_environ w ''ECS_CONTAINER_METADATA_URI_V4'' = Some base" and "base \<noteq> []"
    and "fetch_json w (base @ ''/task'') 5 = Inr (JObject d)"
  shows "metadata_try w = Inr (Some (success_entry ''ecs_metadata''
           (JObject [(''task_arn'', dict_get d ''TaskARN''), (''cluster'', dict_get d ''Cluster''),
                     (''family'', dict_get d ''Family'')])))"
  using assms by (simp add: metadata_try_def metadata_payload_object)

lemma validation_flow_Inr:
  assumes "validation_flow w = Inr s"
  obtains info ts ri where "get_system_info w = Inr info" and "test_connectivity w = Inr ts"
    and "check_resources w = Inr ri" and "s = make_summary w info ts ri"
  using assms by (auto simp: validation_flow_def split: sum.splits)

subsection \<open>Rounding\<close>


lemma round_half_even_lower: "rat_of_int (round_half_even x) - 1 / 2 \<le> x"
  unfolding round_half_even_def Let_def
  by (auto simp: not_less) linarith+

lemma round_half_even_upper: "x \<le> rat_of_int (round_half_even x) + 1 / 2"
  unfolding round_half_even_def Let_def
  by (auto simp: not_less) linarith+

lemma round_half_even_eqI:
  assumes "rat_of_int k - 1 / 2 < x" and "x < rat_of_int k + 1 / 2"
  shows "round_half_even x = k"
proof -
  have "\<lfloor>x\<rfloor> = k \<or> \<lfloor>x\<rfloor> = k - 1" using assms by linarith
  then show ?thesis
  proof
    assume f: "\<lfloor>x\<rfloor> = k"
    then have "x - rat_of_int \<lfloor>x\<rfloor> < 1 / 2" using assms by simp
    then show ?thesis using f by (simp add: round_half_even_def Let_def)
  next
    assume f: "\<lfloor>x\<rfloor> = k - 1"
    then have "1 / 2 < x - rat_of_int \<lfloor>x\<rfloor>" using assms by simp
    then show ?thesis using f by (simp add: round_half_even_def Let_def)
  qed
qed





lemma py_round_eqI:
  assumes "rat_of_int k - 1 / 2 < x * 100" and "x * 100 < rat_of_int k + 1 / 2"
  shows "py_round x 2 = rat_of_int k / 100"
proof -
  have "round_half_even (x * 10 ^ 2) = k"
    by (rule round_half_even_eqI) (use assms in simp_all)
  then show ?thesis by (simp add: py_round_def)
qed

lemma py_round_nearest: "nearest_hundredth x (py_round x 2)"
proof -
  let ?k = "round_half_even (x * 10 ^ 2)"
  have r: "py_round x 2 = rat_of_int ?k / 100" by (simp add: py_round_def)
  have "rat_of_int ?k - 1 / 2 \<le> x * 100" "x * 100 \<le> rat_of_int ?k + 1 / 2"
    using round_half_even_lower [of "x * 10 ^ 2"] round_half_even_upper [of "x * 10 ^ 2"]
    by simp_all
  then have "\<bar>rat_of_int ?k / 100 - x\<bar> \<le> 1 / 200" by linarith
  then show ?thesis by (simp add: nearest_hundredth_def r)
qed




lemma check_resources_Inr:
  assumes "check_resources w = Inr r"
  obtains cpu memory disk where "psutil_cpu_percent w 1 = Inr cpu"
    and "psutil_virtual_memory w = Inr memory" and "psutil_disk_usage w ''/'' = Inr disk"
    and "disk_total disk \<noteq> 0"
    and "r = \<lparr> cpu_percent = cpu,
               memory_total_gb = py_round (bytes_to_gb (mem_total memory)) 2,
               memory_used_gb = py_round (bytes_to_gb (mem_used memory)) 2,
               memory_percent = percent_value (mem_percent memory),
               disk_total_gb = py_round (bytes_to_gb (disk_total disk)) 2,
               disk_used_gb = py_round (bytes_to_gb (disk_used disk)) 2,
               disk_percent =
                 py_round (rat_of_nat (disk_used disk) / rat_of_nat (disk_total disk) * 100) 2 \<rparr>"
  using assms by (auto simp: check_resources_def true_div_def split: sum.splits if_splits)

lemma test_connectivity_total: "\<exists>ts. test_connectivity w = Inr ts"
proof (cases "metadata_try w")
  case (Inl e)
  then show ?thesis by (simp add: test_connectivity_raised)
next
  case (Inr r)
  then show ?thesis
    by (cases r) (simp_all add: test_connectivity_skipped test_connectivity_appended)
qed

subsection \<open>The sample worlds evaluated\<close>

lemma sample_internet_try:
  "internet_try sample_world =
     Inr (success_entry ''internet_connectivity'' (JObject [(''origin'', JString ''1.2.3.4'')]))"
  by (simp add: internet_try_def fetch_json_def world_defs)

lemma with_environ_internet_try: "internet_try (with_environ b) = internet_try sample_world"
  by (simp add: internet_try_def fetch_json_def with_environ_def cong: sum.case_cong)

lemma sample_first_entry:
  "first_entry (with_environ b) =
     success_entry ''internet_connectivity'' (JObject [(''origin'', JString ''1.2.3.4'')])"
  by (simp add: first_entry_def with_environ_internet_try sample_internet_try)

lemma sample_world_environ: "sample_world = with_environ []"
  by (simp add: with_environ_def sample_world_def)

lemma sample_test_connectivity:
  "test_connectivity sample_world =
     Inr [success_entry ''internet_connectivity'' (JObject [(''origin'', JString ''1.2.3.4'')])]"
proof -
  have "metadata_try (with_environ []) = Inr None"
    by (rule metadata_try_unset) (simp add: with_environ_def)
  then show ?thesis
    using test_connectivity_skipped [of "with_environ []"]
    by (simp add: sample_first_entry sample_world_environ)
qed

lemma sample_percent: "percent_value (Percentage (131 / 5)) = 131 / 5"
  by (simp add: Percentage_inverse)

lemma sample_check_resources:
  "check_resources sample_world =
     Inr \<lparr> cpu_percent = 25 / 2, memory_total_gb = 8, memory_used_gb = 2,
           memory_percent = 131 / 5, disk_total_gb = 11498 / 100, disk_used_gb = 2874 / 100,
           disk_percent = 25 \<rparr>"
proof -
  have "py_round (bytes_to_gb 8589934592) 2 = 8"
    using py_round_eqI [of 800 "bytes_to_gb 8589934592"] by (simp add: bytes_to_gb_def)
  moreover have "py_round (bytes_to_gb 2147483648) 2 = 2"
    using py_round_eqI [of 200 "bytes_to_gb 2147483648"] by (simp add: bytes_to_gb_def)
  moreover have "py_round (bytes_to_gb 123456789012) 2 = 11498 / 100"
    using py_round_eqI [of 11498 "bytes_to_gb 123456789012"] by (simp add: bytes_to_gb_def)
  moreover have "py_round (bytes_to_gb 30864197253) 2 = 2874 / 100"
    using py_round_eqI [of 2874 "bytes_to_gb 30864197253"] by (simp add: bytes_to_gb_def)
  moreover have "py_round (rat_of_nat 30864197253 / rat_of_nat 123456789012 * 100) 2 = 25"
    using py_round_eqI [of 2500 "rat_of_nat 30864197253 / rat_of_nat 123456789012 * 100"] by simp
  ultimately show ?thesis
    by (simp add: check_resources_def true_div_def sample_world_def sample_percent)
qed


lemma fetch_json_raises:
  "isl (fetch_json w url t) =
     (case urlopen w url t of
        Inl e \<Rightarrow> True
      | Inr response \<Rightarrow>
          (case read response of
             Inl e \<Rightarrow> True
           | Inr body \<Rightarrow>
               (case bytes_decode w body of
                  Inl e \<Rightarrow> True
                | Inr text \<Rightarrow> isl (json_loads w text))))"
  by (simp add: fetch_json_def split: sum.splits)

lemma metadata_try_raises:
  assumes "os_environ w ''ECS_CONTAINER_METADATA_URI_V4'' = Some base" and "base \<noteq> []"
  shows "isl (metadata_try w) =
           (case fetch_json w (base @ ''/task'') 5 of
              Inl e \<Rightarrow> True
            | Inr v \<Rightarrow> (\<forall>d. v \<noteq> JObject d))"
proof (cases "fetch_json w (base @ ''/task'') 5")
  case (Inl e)
  then show ?thesis using assms by (simp add: metadata_try_def)
next
  case (Inr v)
  show ?thesis
  proof (cases "\<exists>d. v = JObject d")
    case True
    then show ?thesis using assms Inr by (auto simp: metadata_try_def metadata_payload_object)
  next
    case False
    then have "isl (metadata_payload v)" by (simp add: metadata_payload_not_object)
    then show ?thesis using assms Inr False by (auto simp: metadata_try_def isl_def)
  qed
qed

lemma metadata_try_set:
  assumes "os_environ w ''ECS_CONTAINER_METADATA_URI_V4'' = Some base" and "base \<noteq> []"
  shows "(\<exists>e. metadata_try w = Inl e) \<or>
         (\<exists>payload. metadata_try w = Inr (Some (success_entry ''ecs_metadata'' payload)))"
  using assms by (auto simp: metadata_try_def split: sum.splits)

lemma with_environ_fetch_json: "fetch_json (with_environ b) = fetch_json sample_world"
  by (simp add: fetch_json_def with_environ_def fun_eq_iff cong: sum.case_cong)

lemma sample_fetch_list:
  "fetch_json sample_world ''http://169.254.170.2/v4/list/task'' 5 = Inr (JArray [JInt 1, JInt 2])"
  by (simp add: fetch_json_def world_defs)

lemma sample_fetch_task:
  "fetch_json sample_world ''http://169.254.170.2/v4/abc/task'' 5 =
     Inr (JObject [(''TaskARN'', JString ''a''), (''Cluster'', JString ''c''),
                   (''Family'', JString ''f'')])"
  by (simp add: fetch_json_def world_defs)

lemma sample_fetch_bare:
  "fetch_json sample_world ''http://169.254.170.2/v4/empty/task'' 5 = Inr (JObject [])"
  by (simp add: fetch_json_def world_defs)

lemma list_uri_metadata_try:
  "metadata_try (with_environ list_uri) = Inl (attribute_error ''list'')"
proof -
  have "os_environ (with_environ list_uri) ''ECS_CONTAINER_METADATA_URI_V4'' =
          Some ''http://169.254.170.2/v4/list''"
    by (simp add: with_environ_def list_uri_def)
  then show ?thesis
    by (simp add: metadata_try_def with_environ_fetch_json sample_fetch_list
        metadata_payload_def)
qed

lemma task_uri_environ:
  "os_environ (with_environ task_uri) ''ECS_CONTAINER_METADATA_URI_V4'' =
     Some ''http://169.254.170.2/v4/abc''"
  by (simp add: with_environ_def task_uri_def)

lemma bare_uri_environ:
  "os_environ (with_environ bare_uri) ''ECS_CONTAINER_METADATA_URI_V4'' =
     Some ''http://169.254.170.2/v4/empty''"
  by (simp add: with_environ_def bare_uri_def)

lemma list_uri_environ:
  "os_environ (with_environ list_uri) ''ECS_CONTAINER_METADATA_URI_V4'' =
     Some ''http://169.254.170.2/v4/list''"
  by (simp add: with_environ_def list_uri_def)

lemma sample_disk_usage:
  "psutil_disk_usage sample_world ''/'' =
     Inr \<lparr> disk_total = 123456789012, disk_used = 30864197253 \<rparr>"
  by (simp add: sample_world_def)

lemma sample_virtual_memory:
  "psutil_virtual_memory sample_world =
     Inr \<lparr> mem_total = 8589934592, mem_used = 2147483648,
           mem_percent = Percentage (131 / 5) \<rparr>"
  by (simp add: sample_world_def)

lemma floor_sample_gb: "\<lfloor>bytes_to_gb 123456789012\<rfloor> = 114"
  by (rule floor_unique) (simp_all add: bytes_to_gb_def)

lemma round_significant_sample: "round_significant (bytes_to_gb 123456789012) 3 = 115"
proof -
  have pos: "0 < bytes_to_gb 123456789012" "1 \<le> bytes_to_gb 123456789012"
    by (simp_all add: bytes_to_gb_def)
  have "decimal_digits 114 = 3"
    by (simp add: decimal_digits.simps)
  then have e: "decimal_exponent \<bar>bytes_to_gb 123456789012\<bar> = 2"
    using pos by (simp add: decimal_exponent_def floor_sample_gb)
  have "round_half_even (bytes_to_gb 123456789012) = 115"
    by (rule round_half_even_eqI) (simp_all add: bytes_to_gb_def)
  then show ?thesis
    using pos e by (simp add: round_significant_def)
qed

lemma print_all_None: "(print_all w lines = None) = (\<forall>line\<in>set lines. stdout_print w line = None)"
  by (induction lines) (auto split: option.splits)

lemma print_all_Some:
  "print_all w lines = Some e \<Longrightarrow> \<exists>line\<in>set lines. stdout_print w line = Some e"
  by (induction lines) (auto split: option.splits)

lemma print_all_written: "(\<And>text. stdout_print w text = None) \<Longrightarrow> print_all w lines = None"
  by (simp add: print_all_None)

lemma ascii_print_emoji: "ascii_print (CHR 0xF0 # text) \<noteq> None"
  by (simp add: ascii_print_def)

lemma fetch_json_urlopen: "urlopen w url t = Inl e \<Longrightarrow> fetch_json w url t = Inl e"
  by (simp add: fetch_json_def)

lemma fetch_json_read:
  "urlopen w url t = Inr response \<Longrightarrow> read response = Inl e \<Longrightarrow> fetch_json w url t = Inl e"
  by (simp add: fetch_json_def)

lemma fetch_json_decode:
  "urlopen w url t = Inr response \<Longrightarrow> read response = Inr body \<Longrightarrow>
     bytes_decode w body = Inl e \<Longrightarrow> fetch_json w url t = Inl e"
  by (simp add: fetch_json_def)

lemma fetch_json_loads:
  "urlopen w url t = Inr response \<Longrightarrow> read response = Inr body \<Longrightarrow>
     bytes_decode w body = Inr text \<Longrightarrow> json_loads w text = r \<Longrightarrow> fetch_json w url t = r"
  by (simp add: fetch_json_def)

lemma first_entry_failed:
  "fetch_json w ''https://httpbin.org/ip'' 10 = Inl e \<Longrightarrow>
     first_entry w = failed_entry ''internet_connectivity'' e"
  by (simp add: first_entry_def internet_try_def)

lemma metadata_try_fetch_failed:
  "os_environ w ''ECS_CONTAINER_METADATA_URI_V4'' = Some base \<Longrightarrow> base \<noteq> [] \<Longrightarrow>
     fetch_json w (base @ ''/task'') 5 = Inl e \<Longrightarrow> metadata_try w = Inl e"
  by (simp add: metadata_try_def)

lemma metadata_try_not_object:
  "os_environ w ''ECS_CONTAINER_METADATA_URI_V4'' = Some base \<Longrightarrow> base \<noteq> [] \<Longrightarrow>
     fetch_json w (base @ ''/task'') 5 = Inr v \<Longrightarrow> json_get v ''TaskARN'' = Inl e \<Longrightarrow>
     metadata_try w = Inl e"
  by (simp add: metadata_try_def metadata_payload_def)

lemma test_connectivity_shape:
  "\<exists>ts. test_connectivity w = Inr ts \<and> ts ! 0 = first_entry w \<and>
     (\<forall>e. metadata_try w = Inl e \<longrightarrow>
        length ts = 2 \<and> ts ! 1 = failed_entry ''ecs_metadata'' e)"
proof (cases "metadata_try w")
  case (Inl e)
  then show ?thesis by (simp add: test_connectivity_raised)
next
  case (Inr r)
  then show ?thesis
    by (cases r) (simp_all add: test_connectivity_skipped test_connectivity_appended)
qed

lemma two_entries: "length ts = 2 \<Longrightarrow> ts ! 0 = a \<Longrightarrow> ts ! 1 = b \<Longrightarrow> ts = [a, b]"
  by (cases ts; cases "tl ts") auto

lemma offline_urlopen:
  "urlopen offline_world url t = Inl timed_out"
  by (simp add: offline_world_def timed_out_def)

lemma offline_environ:
  "os_environ offline_world ''ECS_CONTAINER_METADATA_URI_V4'' = Some ''http://169.254.170.2/v4/abc''"
  by (simp add: offline_world_def)

lemma garbled_fetch:
  "urlopen garbled_world url t = Inr (HTTPResponse (Inr ''<html>Bad Gateway</html>''))"
  "bytes_decode garbled_world body = Inr body"
  "json_loads garbled_world ''<html>Bad Gateway</html>'' =
     Inl (PyException ''JSONDecodeError'' ''Expecting value: line 1 column 1 (char 0)'')"
  by (simp_all add: garbled_world_def sample_world_def sample_json_loads_def)

lemma garbled_environ:
  "os_environ garbled_world ''ECS_CONTAINER_METADATA_URI_V4'' = Some ''http://169.254.170.2/v4/abc''"
  by (simp add: garbled_world_def)

lemma sample_stdout: "stdout_print offline_world text = None" "stdout_print garbled_world text = None"
  "stdout_print (with_environ b) text = None"
  by (simp_all add: offline_world_def garbled_world_def with_environ_def sample_world_def)

subsection \<open>The success flag\<close>

text \<open>
  Claim C1. The flag \<^verbatim>\<open>validation_success\<close> that the aggregator computes from a sequence of
  connectivity entries is the conjunction of \<^verbatim>\<open>status == "success"\<close> over the entries, and
  it is true for the empty sequence. In a run of \<^verbatim>\<open>validation_flow\<close> that returns a summary,
  the sequence is the one the prober returned.
\<close>

theorem validation_success_conjunction:
  "validation_success (make_summary w info ts ri) = (\<forall>t\<in>set ts. status t = ''success'') \<and>
   validation_success (make_summary w info [] ri) = True \<and>
   (validation_flow w = Inr s \<longrightarrow>
      test_connectivity w = Inr (connectivity_tests s) \<and>
      validation_success s = (\<forall>t\<in>set (connectivity_tests s). status t = ''success''))"
proof (intro conjI impI)
  show "validation_success (make_summary w info ts ri) = (\<forall>t\<in>set ts. status t = ''success'')"
    by (simp add: make_summary_def py_all_map)
  show "validation_success (make_summary w info [] ri) = True"
    by (simp add: make_summary_def)
next
  assume "validation_flow w = Inr s"
  then obtain info' ts' ri' where tc: "test_connectivity w = Inr ts'"
    and s: "s = make_summary w info' ts' ri'"
    by (rule validation_flow_Inr)
  show "test_connectivity w = Inr (connectivity_tests s)"
    by (simp add: tc s make_summary_def)
  show "validation_success s = (\<forall>t\<in>set (connectivity_tests s). status t = ''success'')"
    by (simp add: s make_summary_def py_all_map)
qed

lemma sample_get_system_info:
  "get_system_info sample_world = Inr (system_info sample_summary)"
  by (simp add: get_system_info_def environ_get_def sample_world_def sample_summary_def)

lemma sample_validation_flow: "validation_flow sample_world = Inr sample_summary"
  by (simp add: validation_flow_def sample_get_system_info sample_test_connectivity
      sample_check_resources make_summary_def success_entry_def)
     (simp add: sample_summary_def sample_world_def)

theorem validation_success_conjunction_witness:
  "validation_flow sample_world = Inr sample_summary \<and>
   test_connectivity sample_world = Inr (connectivity_tests sample_summary) \<and>
   validation_success sample_summary = True"
proof -
  have flow: "validation_flow sample_world = Inr sample_summary"
    by (rule sample_validation_flow)
  from validation_success_conjunction [of sample_world _ "[]" _ sample_summary] flow
  have "test_connectivity sample_world = Inr (connectivity_tests sample_summary) \<and>
        validation_success sample_summary =
          (\<forall>t\<in>set (connectivity_tests sample_summary). status t = ''success'')"
    by blast
  then show ?thesis using flow by (simp add: sample_summary_def)
qed

subsection \<open>Failures of the probes\<close>

text \<open>
  Claim C3, as stated, fails in its first part: the prober can raise to its caller. The
  loop that prints the results (lines 79 to 84) is outside both \<^verbatim>\<open>try\<close> statements, and
  on a standard output that encodes ASCII only its first status line, which holds the
  character U+2705, raises \<^verbatim>\<open>UnicodeEncodeError\<close>, although both HTTP calls succeeded.
\<close>

theorem prober_raises_counterexample:
  "test_connectivity ascii_world =
     Inr [\<lparr> test = ''internet_connectivity'', status = ''success'',
            result = Some (JObject [(''origin'', JString ''1.2.3.4'')]), error = None \<rparr>] \<and>
   test_connectivity_io ascii_world =
     Inl (PyException ''UnicodeEncodeError''
            ''ascii codec cannot encode character: ordinal not in range(128)'')"
proof -
  have same: "ascii_world = (with_environ [(''PYTHONIOENCODING'', ''ascii'')]) \<lparr> stdout_print := ascii_print \<rparr>"
    by (simp add: ascii_world_def with_environ_def)
  have "internet_try ascii_world = internet_try sample_world"
    by (simp add: internet_try_def fetch_json_def ascii_world_def cong: sum.case_cong)
  then have first: "first_entry ascii_world =
      success_entry ''internet_connectivity'' (JObject [(''origin'', JString ''1.2.3.4'')])"
    by (simp add: first_entry_def sample_internet_try)
  have "metadata_try ascii_world = Inr None"
    by (rule metadata_try_unset) (simp add: ascii_world_def)
  then have ts: "test_connectivity ascii_world =
      Inr [success_entry ''internet_connectivity'' (JObject [(''origin'', JString ''1.2.3.4'')])]"
    using test_connectivity_skipped [of ascii_world] first by simp
  have out: "stdout_print ascii_world = ascii_print"
    by (simp add: ascii_world_def)
  have "test_connectivity_io ascii_world =
     Inl (PyException ''UnicodeEncodeError''
            ''ascii codec cannot encode character: ordinal not in range(128)'')"
    by (simp add: test_connectivity_io_def ts connectivity_lines_def entry_lines_def
        success_entry_def out ascii_print_def)
  with ts show ?thesis by (simp add: success_entry_def)
qed

text \<open>
  Claim C3, amended. No exception of the two HTTP calls reaches the caller. Whatever
  raises while a probe fetches its answer (\<^verbatim>\<open>urlopen\<close>: timeout, DNS failure, status that is
  not 2xx; \<^verbatim>\<open>read\<close>; \<^verbatim>\<open>decode\<close>; \<^verbatim>\<open>json.loads\<close>: malformed body) or while the metadata probe
  extracts its fields (\<^verbatim>\<open>.get\<close> on a value that is not an object) is caught within the
  probe and becomes that probe's entry, with status \<^verbatim>\<open>failed\<close> and \<^verbatim>\<open>str(e)\<close> as its error.
  The list is always built; the prober returns it exactly when its writes to standard
  output succeed, and the only exception it can raise is one of a \<^verbatim>\<open>print\<close> of lines 79
  to 84.
\<close>

theorem probe_exceptions_recorded:
  "\<exists>ts. test_connectivity w = Inr ts \<and>
     (test_connectivity_io w = Inr ts) =
       (\<forall>line\<in>set (connectivity_lines ts). stdout_print w line = None) \<and>
     (\<forall>e. test_connectivity_io w = Inl e \<longrightarrow>
        (\<exists>line\<in>set (connectivity_lines ts). stdout_print w line = Some e)) \<and>
     (\<forall>e. urlopen w ''https://httpbin.org/ip'' 10 = Inl e \<longrightarrow>
        ts ! 0 = \<lparr> test = ''internet_connectivity'', status = ''failed'', result = None,
                   error = Some (exc_str e) \<rparr>) \<and>
     (\<forall>response e.
        urlopen w ''https://httpbin.org/ip'' 10 = Inr response \<and> read response = Inl e \<longrightarrow>
        ts ! 0 = \<lparr> test = ''internet_connectivity'', status = ''failed'', result = None,
                   error = Some (exc_str e) \<rparr>) \<and>
     (\<forall>response body e.
        urlopen w ''https://httpbin.org/ip'' 10 = Inr response \<and> read response = Inr body \<and>
        bytes_decode w body = Inl e \<longrightarrow>
        ts ! 0 = \<lparr> test = ''internet_connectivity'', status = ''failed'', result = None,
                   error = Some (exc_str e) \<rparr>) \<and>
     (\<forall>response body text e.
        urlopen w ''https://httpbin.org/ip'' 10 = Inr response \<and> read response = Inr body \<and>
        bytes_decode w body = Inr text \<and> json_loads w text = Inl e \<longrightarrow>
        ts ! 0 = \<lparr> test = ''internet_connectivity'', status = ''failed'', result = None,
                   error = Some (exc_str e) \<rparr>) \<and>
     (\<forall>base. os_environ w ''ECS_CONTAINER_METADATA_URI_V4'' = Some base \<and> base \<noteq> [] \<longrightarrow>
        (\<forall>e. urlopen w (base @ ''/task'') 5 = Inl e \<longrightarrow>
           length ts = 2 \<and>
           ts ! 1 = \<lparr> test = ''ecs_metadata'', status = ''failed'', result = None,
                      error = Some (exc_str e) \<rparr>) \<and>
        (\<forall>response e.
           urlopen w (base @ ''/task'') 5 = Inr response \<and> read response = Inl e \<longrightarrow>
           length ts = 2 \<and>
           ts ! 1 = \<lparr> test = ''ecs_metadata'', status = ''failed'', result = None,
                      error = Some (exc_str e) \<rparr>) \<and>
        (\<forall>response body e.
           urlopen w (base @ ''/task'') 5 = Inr response \<and> read response = Inr body \<and>
           bytes_decode w body = Inl e \<longrightarrow>
           length ts = 2 \<and>
           ts ! 1 = \<lparr> test = ''ecs_metadata'', status = ''failed'', result = None,
                      error = Some (exc_str e) \<rparr>) \<and>
        (\<forall>response body text e.
           urlopen w (base @ ''/task'') 5 = Inr response \<and> read response = Inr body \<and>
           bytes_decode w body = Inr text \<and> json_loads w text = Inl e \<longrightarrow>
           length ts = 2 \<and>
           ts ! 1 = \<lparr> test = ''ecs_metadata'', status = ''failed'', result = None,
                      error = Some (exc_str e) \<rparr>) \<and>
        (\<forall>response body text v e.
           urlopen w (base @ ''/task'') 5 = Inr response \<and> read response = Inr body \<and>
           bytes_decode w body = Inr text \<and> json_loads w text = Inr v \<and>
           json_get v ''TaskARN'' = Inl e \<longrightarrow>
           length ts = 2 \<and>
           ts ! 1 = \<lparr> test = ''ecs_metadata'', status = ''failed'', result = None,
                      error = Some (exc_str e) \<rparr>))"
proof -
  obtain ts where ts: "test_connectivity w = Inr ts" and first: "ts ! 0 = first_entry w"
    and second: "\<And>e. metadata_try w = Inl e \<Longrightarrow>
                   length ts = 2 \<and> ts ! 1 = failed_entry ''ecs_metadata'' e"
    using test_connectivity_shape [of w] by blast
  have io: "test_connectivity_io w =
      (case print_all w (connectivity_lines ts) of Some e \<Rightarrow> Inl e | None \<Rightarrow> Inr ts)"
    by (simp add: test_connectivity_io_def ts)
  have written: "(test_connectivity_io w = Inr ts) =
      (\<forall>line\<in>set (connectivity_lines ts). stdout_print w line = None)"
    by (simp add: io print_all_None [symmetric] split: option.splits)
  have raised: "\<forall>e. test_connectivity_io w = Inl e \<longrightarrow>
      (\<exists>line\<in>set (connectivity_lines ts). stdout_print w line = Some e)"
    using print_all_Some [of w "connectivity_lines ts"]
    by (auto simp: io split: option.splits)
  have internet: "ts ! 0 = \<lparr> test = ''internet_connectivity'', status = ''failed'',
                               result = None, error = Some (exc_str e) \<rparr>"
    if "fetch_json w ''https://httpbin.org/ip'' 10 = Inl e" for e
    using first_entry_failed [OF that] by (simp add: first failed_entry_def)
  have metadata: "length ts = 2 \<and>
      ts ! 1 = \<lparr> test = ''ecs_metadata'', status = ''failed'', result = None,
                 error = Some (exc_str e) \<rparr>"
    if "metadata_try w = Inl e" for e
    using second [OF that] by (simp add: failed_entry_def)
  have meta_fetch: "length ts = 2 \<and>
      ts ! 1 = \<lparr> test = ''ecs_metadata'', status = ''failed'', result = None,
                 error = Some (exc_str e) \<rparr>"
    if "os_environ w ''ECS_CONTAINER_METADATA_URI_V4'' = Some base" and "base \<noteq> []"
      and "fetch_json w (base @ ''/task'') 5 = Inl e" for base e
    using that by (intro metadata metadata_try_fetch_failed)
  have meta_get: "length ts = 2 \<and>
      ts ! 1 = \<lparr> test = ''ecs_metadata'', status = ''failed'', result = None,
                 error = Some (exc_str e) \<rparr>"
    if "os_environ w ''ECS_CONTAINER_METADATA_URI_V4'' = Some base" and "base \<noteq> []"
      and "fetch_json w (base @ ''/task'') 5 = Inr v" and "json_get v ''TaskARN'' = Inl e"
    for base v e
    using that by (intro metadata metadata_try_not_object)
  show ?thesis
  proof (intro exI [of _ ts] conjI)
    show "test_connectivity w = Inr ts" by (rule ts)
    show "(test_connectivity_io w = Inr ts) =
      (\<forall>line\<in>set (connectivity_lines ts). stdout_print w line = None)" by (rule written)
    show "\<forall>e. test_connectivity_io w = Inl e \<longrightarrow>
      (\<exists>line\<in>set (connectivity_lines ts). stdout_print w line = Some e)" by (rule raised)
  next
    show "\<forall>e. urlopen w ''https://httpbin.org/ip'' 10 = Inl e \<longrightarrow>
        ts ! 0 = \<lparr> test = ''internet_connectivity'', status = ''failed'', result = None,
                   error = Some (exc_str e) \<rparr>"
      using internet fetch_json_urlopen by blast
    show "\<forall>response e.
        urlopen w ''https://httpbin.org/ip'' 10 = Inr response \<and> read response = Inl e \<longrightarrow>
        ts ! 0 = \<lparr> test = ''internet_connectivity'', status = ''failed'', result = None,
                   error = Some (exc_str e) \<rparr>"
      using internet fetch_json_read by blast
    show "\<forall>response body e.
        urlopen w ''https://httpbin.org/ip'' 10 = Inr response \<and> read response = Inr body \<and>
        bytes_decode w body = Inl e \<longrightarrow>
        ts ! 0 = \<lparr> test = ''internet_connectivity'', status = ''failed'', result = None,
                   error = Some (exc_str e) \<rparr>"
      using internet fetch_json_decode by blast
    show "\<forall>response body text e.
        urlopen w ''https://httpbin.org/ip'' 10 = Inr response \<and> read response = Inr body \<and>
        bytes_decode w body = Inr text \<and> json_loads w text = Inl e \<longrightarrow>
        ts ! 0 = \<lparr> test = ''internet_connectivity'', status = ''failed'', result = None,
                   error = Some (exc_str e) \<rparr>"
      using internet fetch_json_loads by blast
  next
    show "\<forall>base. os_environ w ''ECS_CONTAINER_METADATA_URI_V4'' = Some base \<and> base \<noteq> [] \<longrightarrow>
        (\<forall>e. urlopen w (base @ ''/task'') 5 = Inl e \<longrightarrow>
           length ts = 2 \<and>
           ts ! 1 = \<lparr> test = ''ecs_metadata'', status = ''failed'', result = None,
                      error = Some (exc_str e) \<rparr>) \<and>
        (\<forall>response e.
           urlopen w (base @ ''/task'') 5 = Inr response \<and> read response = Inl e \<longrightarrow>
           length ts = 2 \<and>
           ts ! 1 = \<lparr> test = ''ecs_metadata'', status = ''failed'', result = None,
                      error = Some (exc_str e) \<rparr>) \<and>
        (\<forall>response body e.
           urlopen w (base @ ''/task'') 5 = Inr response \<and> read response = Inr body \<and>
           bytes_decode w body = Inl e \<longrightarrow>
           length ts = 2 \<and>
           ts ! 1 = \<lparr> test = ''ecs_metadata'', status = ''failed'', result = None,
                      error = Some (exc_str e) \<rparr>) \<and>
        (\<forall>response body text e.
           urlopen w (base @ ''/task'') 5 = Inr response \<and> read response = Inr body \<and>
           bytes_decode w body = Inr text \<and> json_loads w text = Inl e \<longrightarrow>
           length ts = 2 \<and>
           ts ! 1 = \<lparr> test = ''ecs_metadata'', status = ''failed'', result = None,
                      error = Some (exc_str e) \<rparr>) \<and>
        (\<forall>response body text v e.
           urlopen w (base @ ''/task'') 5 = Inr response \<and> read response = Inr body \<and>
           bytes_decode w body = Inr text \<and> json_loads w text = Inr v \<and>
           json_get v ''TaskARN'' = Inl e \<longrightarrow>
           length ts = 2 \<and>
           ts ! 1 = \<lparr> test = ''ecs_metadata'', status = ''failed'', result = None,
                      error = Some (exc_str e) \<rparr>)"
    proof (intro allI impI)
      fix base
      assume "os_environ w ''ECS_CONTAINER_METADATA_URI_V4'' = Some base \<and> base \<noteq> []"
      then have env: "os_environ w ''ECS_CONTAINER_METADATA_URI_V4'' = Some base" "base \<noteq> []"
        by simp_all
      have m1: "\<forall>e. urlopen w (base @ ''/task'') 5 = Inl e \<longrightarrow>
           length ts = 2 \<and>
           ts ! 1 = \<lparr> test = ''ecs_metadata'', status = ''failed'', result = None,
                      error = Some (exc_str e) \<rparr>"
      proof (intro allI impI)
        fix e
        assume "urlopen w (base @ ''/task'') 5 = Inl e"
        then have "fetch_json w (base @ ''/task'') 5 = Inl e"
          by (rule fetch_json_urlopen)
        then show "length ts = 2 \<and>
           ts ! 1 = \<lparr> test = ''ecs_metadata'', status = ''failed'', result = None,
                      error = Some (exc_str e) \<rparr>"
          by (rule meta_fetch [OF env])
      qed
      have m2: "\<forall>response e.
           urlopen w (base @ ''/task'') 5 = Inr response \<and> read response = Inl e \<longrightarrow>
           length ts = 2 \<and>
           ts ! 1 = \<lparr> test = ''ecs_metadata'', status = ''failed'', result = None,
                      error = Some (exc_str e) \<rparr>"
      proof (intro allI impI, elim conjE)
        fix response e
        assume "urlopen w (base @ ''/task'') 5 = Inr response" "read response = Inl e"
        then have "fetch_json w (base @ ''/task'') 5 = Inl e"
          by (rule fetch_json_read)
        then show "length ts = 2 \<and>
           ts ! 1 = \<lparr> test = ''ecs_metadata'', status = ''failed'', result = None,
                      error = Some (exc_str e) \<rparr>"
          by (rule meta_fetch [OF env])
      qed
      have m3: "\<forall>response body e.
           urlopen w (base @ ''/task'') 5 = Inr response \<and> read response = Inr body \<and>
           bytes_decode w body = Inl e \<longrightarrow>
           length ts = 2 \<and>
           ts ! 1 = \<lparr> test = ''ecs_metadata'', status = ''failed'', result = None,
                      error = Some (exc_str e) \<rparr>"
      proof (intro allI impI, elim conjE)
        fix response body e
        assume "urlopen w (base @ ''/task'') 5 = Inr response" "read response = Inr body"
          "bytes_decode w body = Inl e"
        then have "fetch_json w (base @ ''/task'') 5 = Inl e"
          by (rule fetch_json_decode)
        then show "length ts = 2 \<and>
           ts ! 1 = \<lparr> test = ''ecs_metadata'', status = ''failed'', result = None,
                      error = Some (exc_str e) \<rparr>"
          by (rule meta_fetch [OF env])
      qed
      have m4: "\<forall>response body text e.
           urlopen w (base @ ''/task'') 5 = Inr response \<and> read response = Inr body \<and>
           bytes_decode w body = Inr text \<and> json_loads w text = Inl e \<longrightarrow>
           length ts = 2 \<and>
           ts ! 1 = \<lparr> test = ''ecs_metadata'', status = ''failed'', result = None,
                      error = Some (exc_str e) \<rparr>"
      proof (intro allI impI, elim conjE)
        fix response body decoded e
        assume "urlopen w (base @ ''/task'') 5 = Inr response" "read response = Inr body"
          "bytes_decode w body = Inr decoded" "json_loads w decoded = Inl e"
        then have "fetch_json w (base @ ''/task'') 5 = Inl e"
          by (rule fetch_json_loads)
        then show "length ts = 2 \<and>
           ts ! 1 = \<lparr> test = ''ecs_metadata'', status = ''failed'', result = None,
                      error = Some (exc_str e) \<rparr>"
          by (rule meta_fetch [OF env])
      qed
      have m5: "\<forall>response body text v e.
           urlopen w (base @ ''/task'') 5 = Inr response \<and> read response = Inr body \<and>
           bytes_decode w body = Inr text \<and> json_loads w text = Inr v \<and>
           json_get v ''TaskARN'' = Inl e \<longrightarrow>
           length ts = 2 \<and>
           ts ! 1 = \<lparr> test = ''ecs_metadata'', status = ''failed'', result = None,
                      error = Some (exc_str e) \<rparr>"
      proof (intro allI impI, elim conjE)
        fix response body decoded v e
        assume get: "json_get v ''TaskARN'' = Inl e"
        assume "urlopen w (base @ ''/task'') 5 = Inr response" "read response = Inr body"
          "bytes_decode w body = Inr decoded" "json_loads w decoded = Inr v"
        then have "fetch_json w (base @ ''/task'') 5 = Inr v"
          by (rule fetch_json_loads)
        then show "length ts = 2 \<and>
           ts ! 1 = \<lparr> test = ''ecs_metadata'', status = ''failed'', result = None,
                      error = Some (exc_str e) \<rparr>"
          using get by (rule meta_get [OF env])
      qed
      from m1 m2 m3 m4 m5 show
        "(\<forall>e. urlopen w (base @ ''/task'') 5 = Inl e \<longrightarrow>
           length ts = 2 \<and>
           ts ! 1 = \<lparr> test = ''ecs_metadata'', status = ''failed'', result = None,
                      error = Some (exc_str e) \<rparr>) \<and>
        (\<forall>response e.
           urlopen w (base @ ''/task'') 5 = Inr response \<and> read response = Inl e \<longrightarrow>
           length ts = 2 \<and>
           ts ! 1 = \<lparr> test = ''ecs_metadata'', status = ''failed'', result = None,
                      error = Some (exc_str e) \<rparr>) \<and>
        (\<forall>response body e.
           urlopen w (base @ ''/task'') 5 = Inr response \<and> read response = Inr body \<and>
           bytes_decode w body = Inl e \<longrightarrow>
           length ts = 2 \<and>
           ts ! 1 = \<lparr> test = ''ecs_metadata'', status = ''failed'', result = None,
                      error = Some (exc_str e) \<rparr>) \<and>
        (\<forall>response body text e.
           urlopen w (base @ ''/task'') 5 = Inr response \<and> read response = Inr body \<and>
           bytes_decode w body = Inr text \<and> json_loads w text = Inl e \<longrightarrow>
           length ts = 2 \<and>
           ts ! 1 = \<lparr> test = ''ecs_metadata'', status = ''failed'', result = None,
                      error = Some (exc_str e) \<rparr>) \<and>
        (\<forall>response body text v e.
           urlopen w (base @ ''/task'') 5 = Inr response \<and> read response = Inr body \<and>
           bytes_decode w body = Inr text \<and> json_loads w text = Inr v \<and>
           json_get v ''TaskARN'' = Inl e \<longrightarrow>
           length ts = 2 \<and>
           ts ! 1 = \<lparr> test = ''ecs_metadata'', status = ''failed'', result = None,
                      error = Some (exc_str e) \<rparr>)"
        by (intro conjI)
    qed
  qed
qed


theorem probe_exceptions_recorded_witness:
  "urlopen offline_world ''https://httpbin.org/ip'' 10 = Inl timed_out \<and>
   urlopen offline_world ''http://169.254.170.2/v4/abc/task'' 5 = Inl timed_out \<and>
   test_connectivity_io offline_world =
     Inr [\<lparr> test = ''internet_connectivity'', status = ''failed'', result = None,
            error = Some ''<urlopen error timed out>'' \<rparr>,
          \<lparr> test = ''ecs_metadata'', status = ''failed'', result = None,
            error = Some ''<urlopen error timed out>'' \<rparr>] \<and>
   json_loads garbled_world ''<html>Bad Gateway</html>'' =
     Inl (PyException ''JSONDecodeError'' ''Expecting value: line 1 column 1 (char 0)'') \<and>
   test_connectivity_io garbled_world =
     Inr [\<lparr> test = ''internet_connectivity'', status = ''failed'', result = None,
            error = Some ''Expecting value: line 1 column 1 (char 0)'' \<rparr>,
          \<lparr> test = ''ecs_metadata'', status = ''failed'', result = None,
            error = Some ''Expecting value: line 1 column 1 (char 0)'' \<rparr>]"
proof -
  let ?a = "\<lparr> test = ''internet_connectivity'', status = ''failed'', result = None,
              error = Some (exc_str timed_out) \<rparr>"
  let ?b = "\<lparr> test = ''ecs_metadata'', status = ''failed'', result = None,
              error = Some (exc_str timed_out) \<rparr>"
  from probe_exceptions_recorded [of offline_world]
  obtain ts where io: "(test_connectivity_io offline_world = Inr ts) =
        (\<forall>line\<in>set (connectivity_lines ts). stdout_print offline_world line = None)"
    and first: "\<forall>e. urlopen offline_world ''https://httpbin.org/ip'' 10 = Inl e \<longrightarrow> ts ! 0 =
        \<lparr> test = ''internet_connectivity'', status = ''failed'', result = None,
          error = Some (exc_str e) \<rparr>"
    and second: "\<forall>base. os_environ offline_world ''ECS_CONTAINER_METADATA_URI_V4'' = Some base \<and> base \<noteq> [] \<longrightarrow>
        (\<forall>e. urlopen offline_world (base @ ''/task'') 5 = Inl e \<longrightarrow>
           length ts = 2 \<and>
           ts ! 1 = \<lparr> test = ''ecs_metadata'', status = ''failed'', result = None,
                      error = Some (exc_str e) \<rparr>) \<and>
        (\<forall>response e.
           urlopen offline_world (base @ ''/task'') 5 = Inr response \<and> read response = Inl e \<longrightarrow>
           length ts = 2 \<and>
           ts ! 1 = \<lparr> test = ''ecs_metadata'', status = ''failed'', result = None,
                      error = Some (exc_str e) \<rparr>) \<and>
        (\<forall>response body e.
           urlopen offline_world (base @ ''/task'') 5 = Inr response \<and> read response = Inr body \<and>
           bytes_decode offline_world body = Inl e \<longrightarrow>
           length ts = 2 \<and>
           ts ! 1 = \<lparr> test = ''ecs_metadata'', status = ''failed'', result = None,
                      error = Some (exc_str e) \<rparr>) \<and>
        (\<forall>response body text e.
           urlopen offline_world (base @ ''/task'') 5 = Inr response \<and> read response = Inr body \<and>
           bytes_decode offline_world body = Inr text \<and> json_loads offline_world text = Inl e \<longrightarrow>
           length ts = 2 \<and>
           ts ! 1 = \<lparr> test = ''ecs_metadata'', status = ''failed'', result = None,
                      error = Some (exc_str e) \<rparr>) \<and>
        (\<forall>response body text v e.
           urlopen offline_world (base @ ''/task'') 5 = Inr response \<and> read response = Inr body \<and>
           bytes_decode offline_world body = Inr text \<and> json_loads offline_world text = Inr v \<and>
           json_get v ''TaskARN'' = Inl e \<longrightarrow>
           length ts = 2 \<and>
           ts ! 1 = \<lparr> test = ''ecs_metadata'', status = ''failed'', result = None,
                      error = Some (exc_str e) \<rparr>)"
    apply (elim exE conjE)
    apply (rule that)
    apply assumption+
    done
  from first have a: "ts ! 0 = ?a" by (simp add: offline_urlopen)
  from second [rule_format, of "''http://169.254.170.2/v4/abc''", THEN conjunct1, rule_format,
      of timed_out]
  have "length ts = 2 \<and> ts ! 1 = ?b"
    by (simp add: offline_urlopen offline_environ)
  with a have "ts = [?a, ?b]" by (simp add: two_entries)
  with io have offline: "test_connectivity_io offline_world = Inr [?a, ?b]"
    by (simp add: sample_stdout)
  let ?e = "PyException ''JSONDecodeError'' ''Expecting value: line 1 column 1 (char 0)''"
  let ?c = "\<lparr> test = ''internet_connectivity'', status = ''failed'', result = None,
              error = Some (exc_str ?e) \<rparr>"
  let ?d = "\<lparr> test = ''ecs_metadata'', status = ''failed'', result = None,
              error = Some (exc_str ?e) \<rparr>"
  from probe_exceptions_recorded [of garbled_world]
  obtain us where io': "(test_connectivity_io garbled_world = Inr us) =
        (\<forall>line\<in>set (connectivity_lines us). stdout_print garbled_world line = None)"
    and first': "\<forall>response body text e.
        urlopen garbled_world ''https://httpbin.org/ip'' 10 = Inr response \<and>
        read response = Inr body \<and> bytes_decode garbled_world body = Inr text \<and>
        json_loads garbled_world text = Inl e \<longrightarrow>
        us ! 0 = \<lparr> test = ''internet_connectivity'', status = ''failed'', result = None,
                   error = Some (exc_str e) \<rparr>"
    and second': "\<forall>base. os_environ garbled_world ''ECS_CONTAINER_METADATA_URI_V4'' = Some base \<and> base \<noteq> [] \<longrightarrow>
        (\<forall>e. urlopen garbled_world (base @ ''/task'') 5 = Inl e \<longrightarrow>
           length us = 2 \<and>
           us ! 1 = \<lparr> test = ''ecs_metadata'', status = ''failed'', result = None,
                      error = Some (exc_str e) \<rparr>) \<and>
        (\<forall>response e.
           urlopen garbled_world (base @ ''/task'') 5 = Inr response \<and> read response = Inl e \<longrightarrow>
           length us = 2 \<and>
           us ! 1 = \<lparr> test = ''ecs_metadata'', status = ''failed'', result = None,
                      error = Some (exc_str e) \<rparr>) \<and>
        (\<forall>response body e.
           urlopen garbled_world (base @ ''/task'') 5 = Inr response \<and> read response = Inr body \<and>
           bytes_decode garbled_world body = Inl e \<longrightarrow>
           length us = 2 \<and>
           us ! 1 = \<lparr> test = ''ecs_metadata'', status = ''failed'', result = None,
                      error = Some (exc_str e) \<rparr>) \<and>
        (\<forall>response body text e.
           urlopen garbled_world (base @ ''/task'') 5 = Inr response \<and> read response = Inr body \<and>
           bytes_decode garbled_world body = Inr text \<and> json_loads garbled_world text = Inl e \<longrightarrow>
           length us = 2 \<and>
           us ! 1 = \<lparr> test = ''ecs_metadata'', status = ''failed'', result = None,
                      error = Some (exc_str e) \<rparr>) \<and>
        (\<forall>response body text v e.
           urlopen garbled_world (base @ ''/task'') 5 = Inr response \<and> read response = Inr body \<and>
           bytes_decode garbled_world body = Inr text \<and> json_loads garbled_world text = Inr v \<and>
           json_get v ''TaskARN'' = Inl e \<longrightarrow>
           length us = 2 \<and>
           us ! 1 = \<lparr> test = ''ecs_metadata'', status = ''failed'', result = None,
                      error = Some (exc_str e) \<rparr>)"
    apply (elim exE conjE)
    apply (rule that)
    apply assumption+
    done
  from first' [rule_format, of "HTTPResponse (Inr ''<html>Bad Gateway</html>'')"
      "''<html>Bad Gateway</html>''" "''<html>Bad Gateway</html>''" ?e]
  have c: "us ! 0 = ?c" by (simp add: garbled_fetch)
  from second' [rule_format, of "''http://169.254.170.2/v4/abc''", THEN conjunct2, THEN conjunct2,
      THEN conjunct2, THEN conjunct1, rule_format,
      of "HTTPResponse (Inr ''<html>Bad Gateway</html>'')"
      "''<html>Bad Gateway</html>''" "''<html>Bad Gateway</html>''" ?e]
  have "length us = 2 \<and> us ! 1 = ?d"
    by (simp add: garbled_fetch garbled_environ)
  with c have "us = [?c, ?d]" by (simp add: two_entries)
  with io' have garbled: "test_connectivity_io garbled_world = Inr [?c, ?d]"
    by (simp add: sample_stdout)
  show ?thesis
    using offline garbled by (simp add: offline_urlopen garbled_fetch timed_out_def)
qed

subsection \<open>Failures of the resource sampler\<close>

text \<open>
  Claim C4. When one of the three psutil calls raises, \<^verbatim>\<open>check_resources\<close> raises that
  exception (the first one in call order), \<^verbatim>\<open>validation_flow\<close> raises it too, and so
  returns no summary.
\<close>

theorem sampling_failure_propagates:
  assumes "isl (psutil_cpu_percent w 1) \<or> isl (psutil_virtual_memory w) \<or>
           isl (psutil_disk_usage w ''/'')"
  shows "\<exists>e. check_resources w = Inl e \<and> validation_flow w = Inl e \<and>
              (psutil_cpu_percent w 1 = Inl e \<or> psutil_virtual_memory w = Inl e \<or>
               psutil_disk_usage w ''/'' = Inl e)"
proof -
  obtain ts where ts: "test_connectivity w = Inr ts"
    using test_connectivity_total by blast
  have "\<exists>e. check_resources w = Inl e \<and>
              (psutil_cpu_percent w 1 = Inl e \<or> psutil_virtual_memory w = Inl e \<or>
               psutil_disk_usage w ''/'' = Inl e)"
    using assms by (auto simp: check_resources_def isl_def split: sum.splits)
  then show ?thesis
    by (auto simp: validation_flow_def get_system_info_def ts)
qed

theorem sampling_failure_propagates_witness:
  "isl (psutil_disk_usage no_disk_world ''/'') \<and>
   check_resources no_disk_world =
     Inl (PyException ''FileNotFoundError'' ''[Errno 2] No such file or directory'') \<and>
   validation_flow no_disk_world =
     Inl (PyException ''FileNotFoundError'' ''[Errno 2] No such file or directory'')"
proof -
  have h: "isl (psutil_disk_usage no_disk_world ''/'')"
    by (simp add: no_disk_world_def)
  from sampling_failure_propagates [of no_disk_world] h
  obtain e where e: "check_resources no_disk_world = Inl e" "validation_flow no_disk_world = Inl e"
    "psutil_cpu_percent no_disk_world 1 = Inl e \<or> psutil_virtual_memory no_disk_world = Inl e \<or>
     psutil_disk_usage no_disk_world ''/'' = Inl e"
    by blast
  from e(3) have "e = PyException ''FileNotFoundError'' ''[Errno 2] No such file or directory''"
    by (simp add: no_disk_world_def sample_world_def)
  with e h show ?thesis by simp
qed

subsection \<open>The system information\<close>

text \<open>
  Claim C5, as stated, fails in its first part: the collector does not return for every
  combination of environment variables. It prints the record before returning it, outside
  any \<^verbatim>\<open>try\<close>; under \<^verbatim>\<open>PYTHONIOENCODING=ascii\<close> the header, which starts with the character
  U+1F50D, cannot be written and \<^verbatim>\<open>print\<close> raises \<^verbatim>\<open>UnicodeEncodeError\<close>.
\<close>

theorem collector_raises_counterexample:
  "os_environ ascii_world ''PYTHONIOENCODING'' = Some ''ascii'' \<and>
   get_system_info_io ascii_world =
     Inl (PyException ''UnicodeEncodeError''
            ''ascii codec cannot encode character: ordinal not in range(128)'')"
  by (simp add: get_system_info_io_def get_system_info_def system_info_lines_def
      ascii_world_def ascii_print_def)

text \<open>
  Claim C5, amended. For every combination of environment variables, the record the
  collector builds has each environment field equal to the value of its variable when the
  variable is set, and otherwise to its default: \<^verbatim>\<open>unknown\<close> for the host name, the region,
  the task family and the cluster name, \<^verbatim>\<open>not_set\<close> for the API URL. The collector returns
  that record exactly when its writes to standard output succeed; it fails only when a
  \<^verbatim>\<open>print\<close> of lines 26 to 28 raises, with that exception.
\<close>

theorem get_system_info_io_defaults:
  "\<exists>info.
     (get_system_info_io w = Inr info) =
       (\<forall>line\<in>set (system_info_lines info). stdout_print w line = None) \<and>
     (\<forall>r. get_system_info_io w = Inr r \<longrightarrow> r = info) \<and>
     (\<forall>e. get_system_info_io w = Inl e \<longrightarrow>
        (\<exists>line\<in>set (system_info_lines info). stdout_print w line = Some e)) \<and>
     (\<forall>v. os_environ w ''HOSTNAME'' = Some v \<longrightarrow> container_hostname info = v) \<and>
     (os_environ w ''HOSTNAME'' = None \<longrightarrow> container_hostname info = ''unknown'') \<and>
     (\<forall>v. os_environ w ''AWS_DEFAULT_REGION'' = Some v \<longrightarrow> aws_region info = v) \<and>
     (os_environ w ''AWS_DEFAULT_REGION'' = None \<longrightarrow> aws_region info = ''unknown'') \<and>
     (\<forall>v. os_environ w ''PREFECT_API_URL'' = Some v \<longrightarrow> prefect_api_url info = v) \<and>
     (os_environ w ''PREFECT_API_URL'' = None \<longrightarrow> prefect_api_url info = ''not_set'') \<and>
     (\<forall>v. os_environ w ''ECS_TASK_FAMILY'' = Some v \<longrightarrow> task_family info = v) \<and>
     (os_environ w ''ECS_TASK_FAMILY'' = None \<longrightarrow> task_family info = ''unknown'') \<and>
     (\<forall>v. os_environ w ''ECS_CLUSTER'' = Some v \<longrightarrow> cluster_name info = v) \<and>
     (os_environ w ''ECS_CLUSTER'' = None \<longrightarrow> cluster_name info = ''unknown'')"
proof -
  obtain info where info: "get_system_info w = Inr info"
    by (simp add: get_system_info_def)
  have io: "get_system_info_io w =
      (case print_all w (system_info_lines info) of Some e \<Rightarrow> Inl e | None \<Rightarrow> Inr info)"
    by (simp add: get_system_info_io_def info)
  have written: "(get_system_info_io w = Inr info) =
      (\<forall>line\<in>set (system_info_lines info). stdout_print w line = None)"
    by (simp add: io print_all_None [symmetric] split: option.splits)
  have returned: "\<forall>r. get_system_info_io w = Inr r \<longrightarrow> r = info"
    by (auto simp: io split: option.splits)
  have raised: "\<forall>e. get_system_info_io w = Inl e \<longrightarrow>
      (\<exists>line\<in>set (system_info_lines info). stdout_print w line = Some e)"
    using print_all_Some [of w "system_info_lines info"]
    by (auto simp: io split: option.splits)
  have fields: "container_hostname info = environ_get w ''HOSTNAME'' ''unknown''"
    "aws_region info = environ_get w ''AWS_DEFAULT_REGION'' ''unknown''"
    "prefect_api_url info = environ_get w ''PREFECT_API_URL'' ''not_set''"
    "task_family info = environ_get w ''ECS_TASK_FAMILY'' ''unknown''"
    "cluster_name info = environ_get w ''ECS_CLUSTER'' ''unknown''"
    using info by (auto simp: get_system_info_def)
  show ?thesis
    by (intro exI [of _ info] conjI written returned raised)
      (simp_all add: fields environ_get_def)
qed

theorem get_system_info_io_defaults_witness:
  "\<exists>info. get_system_info_io (with_environ partly_set) = Inr info \<and>
      container_hostname info = ''ip-10-0-1-17'' \<and> aws_region info = ''unknown'' \<and>
      prefect_api_url info = '''' \<and> task_family info = ''unknown'' \<and>
      cluster_name info = ''prefect-cluster''"
proof -
  have env: "os_environ (with_environ partly_set) ''HOSTNAME'' = Some ''ip-10-0-1-17''"
    "os_environ (with_environ partly_set) ''AWS_DEFAULT_REGION'' = None"
    "os_environ (with_environ partly_set) ''PREFECT_API_URL'' = Some ''''"
    "os_environ (with_environ partly_set) ''ECS_TASK_FAMILY'' = None"
    "os_environ (with_environ partly_set) ''ECS_CLUSTER'' = Some ''prefect-cluster''"
    by (simp_all add: with_environ_def partly_set_def)
  show ?thesis
    using get_system_info_io_defaults [of "with_environ partly_set"] env
    by (auto simp: sample_stdout)
qed

subsection \<open>The metadata probe\<close>

text \<open>
  Claim C9. When \<^verbatim>\<open>ECS_CONTAINER_METADATA_URI_V4\<close> is set to the empty string, the prober
  returns what it returns with the variable removed from the environment: the entry of the
  internet probe alone.
\<close>

theorem empty_metadata_uri_skips_probe:
  assumes "os_environ w ''ECS_CONTAINER_METADATA_URI_V4'' = Some []"
  shows "test_connectivity w =
           test_connectivity
             (w \<lparr> os_environ := (os_environ w)(''ECS_CONTAINER_METADATA_URI_V4'' := None) \<rparr>) \<and>
         (\<exists>t. test_connectivity w = Inr [t] \<and> test t = ''internet_connectivity'')"
proof -
  let ?w' = "w \<lparr> os_environ := (os_environ w)(''ECS_CONTAINER_METADATA_URI_V4'' := None) \<rparr>"
  have "internet_try ?w' = internet_try w"
    by (simp add: internet_try_def fetch_json_def cong: sum.case_cong)
  then have first: "first_entry ?w' = first_entry w"
    by (simp add: first_entry_def)
  have "metadata_try ?w' = Inr None"
    by (rule metadata_try_unset) simp
  then have absent: "test_connectivity ?w' = Inr [first_entry w]"
    using test_connectivity_skipped [of ?w'] first by simp
  have empty: "test_connectivity w = Inr [first_entry w]"
    using assms by (simp add: metadata_try_empty test_connectivity_skipped)
  show ?thesis
    by (simp add: absent empty test_first_entry)
qed

theorem empty_metadata_uri_skips_probe_witness:
  "os_environ (with_environ empty_uri) ''ECS_CONTAINER_METADATA_URI_V4'' = Some [] \<and>
   test_connectivity (with_environ empty_uri) =
     Inr [\<lparr> test = ''internet_connectivity'', status = ''success'',
            result = Some (JObject [(''origin'', JString ''1.2.3.4'')]), error = None \<rparr>]"
proof -
  have h: "os_environ (with_environ empty_uri) ''ECS_CONTAINER_METADATA_URI_V4'' = Some []"
    by (simp add: with_environ_def empty_uri_def)
  have "(with_environ empty_uri)
          \<lparr> os_environ := (os_environ (with_environ empty_uri))
                             (''ECS_CONTAINER_METADATA_URI_V4'' := None) \<rparr> = sample_world"
    by (simp add: with_environ_def empty_uri_def sample_world_def fun_eq_iff)
  with empty_metadata_uri_skips_probe [OF h]
  have "test_connectivity (with_environ empty_uri) = test_connectivity sample_world"
    by simp
  then show ?thesis
    using h by (simp add: sample_test_connectivity success_entry_def)
qed

subsection \<open>The number of entries\<close>

text \<open>
  Claim C2, as stated, fails twice. A variable set to the empty string is set, yet the
  prober returns one entry; and where the GET returns normally with the body \<^verbatim>\<open>[1, 2]\<close>,
  the second entry is marked \<^verbatim>\<open>failed\<close> all the same, because \<^verbatim>\<open>.get\<close> on a list raises
  inside the \<^verbatim>\<open>try\<close>.
\<close>

theorem entry_count_counterexample:
  "os_environ (with_environ empty_uri) ''ECS_CONTAINER_METADATA_URI_V4'' = Some '''' \<and>
   test_connectivity (with_environ empty_uri) =
     Inr [\<lparr> test = ''internet_connectivity'', status = ''success'',
            result = Some (JObject [(''origin'', JString ''1.2.3.4'')]), error = None \<rparr>] \<and>
   os_environ (with_environ list_uri) ''ECS_CONTAINER_METADATA_URI_V4'' =
     Some ''http://169.254.170.2/v4/list'' \<and>
   urlopen (with_environ list_uri) ''http://169.254.170.2/v4/list/task'' 5 =
     Inr (HTTPResponse (Inr ''[1, 2]'')) \<and>
   test_connectivity (with_environ list_uri) =
     Inr [\<lparr> test = ''internet_connectivity'', status = ''success'',
            result = Some (JObject [(''origin'', JString ''1.2.3.4'')]), error = None \<rparr>,
          \<lparr> test = ''ecs_metadata'', status = ''failed'', result = None,
            error = Some (exc_str (attribute_error ''list'')) \<rparr>]"
proof -
  have "metadata_try (with_environ empty_uri) = Inr None"
    by (rule metadata_try_empty) (simp add: with_environ_def empty_uri_def)
  then have "test_connectivity (with_environ empty_uri) = Inr [first_entry (with_environ empty_uri)]"
    by (rule test_connectivity_skipped)
  moreover have "test_connectivity (with_environ list_uri) =
      Inr [first_entry (with_environ list_uri),
           failed_entry ''ecs_metadata'' (attribute_error ''list'')]"
    using list_uri_metadata_try by (rule test_connectivity_raised)
  moreover have "urlopen (with_environ list_uri) ''http://169.254.170.2/v4/list/task'' 5 =
     Inr (HTTPResponse (Inr ''[1, 2]''))"
    by (simp add: world_defs)
  ultimately show ?thesis
    by (simp add: sample_first_entry success_entry_def failed_entry_def)
       (simp add: with_environ_def empty_uri_def list_uri_def)
qed

text \<open>
  Claim C2, amended. The prober returns exactly one entry, that of the internet probe, when
  \<^verbatim>\<open>ECS_CONTAINER_METADATA_URI_V4\<close> is unset or empty. When it is set to a non-empty string
  the prober returns exactly two entries, the second being that of the metadata probe,
  marked \<^verbatim>\<open>failed\<close> exactly when an exception leaves the body of the second \<^verbatim>\<open>try\<close> and
  \<^verbatim>\<open>success\<close> otherwise. An exception leaves that body exactly when fetching raises (the
  GET, reading the body, decoding it or parsing it as JSON) or the parsed value is not a
  JSON object.
\<close>

theorem test_connectivity_entry_count:
  "(os_environ w ''ECS_CONTAINER_METADATA_URI_V4'' = None \<or>
    os_environ w ''ECS_CONTAINER_METADATA_URI_V4'' = Some [] \<longrightarrow>
      (\<exists>t. test_connectivity w = Inr [t] \<and> test t = ''internet_connectivity'')) \<and>
   (os_environ w ''ECS_CONTAINER_METADATA_URI_V4'' = Some base \<and> base \<noteq> [] \<longrightarrow>
      (\<exists>t1 t2. test_connectivity w = Inr [t1, t2] \<and>
         test t1 = ''internet_connectivity'' \<and> test t2 = ''ecs_metadata'' \<and>
         (status t2 = ''failed'') = isl (metadata_try w) \<and>
         (status t2 = ''success'') = (\<not> isl (metadata_try w)) \<and>
         isl (metadata_try w) =
           (case fetch_json w (base @ ''/task'') 5 of
              Inl e \<Rightarrow> True
            | Inr v \<Rightarrow> (\<forall>d. v \<noteq> JObject d)) \<and>
         isl (fetch_json w (base @ ''/task'') 5) =
           (case urlopen w (base @ ''/task'') 5 of
              Inl e \<Rightarrow> True
            | Inr response \<Rightarrow>
                (case read response of
                   Inl e \<Rightarrow> True
                 | Inr body \<Rightarrow>
                     (case bytes_decode w body of
                        Inl e \<Rightarrow> True
                      | Inr text \<Rightarrow> isl (json_loads w text))))))"
proof (intro conjI impI)
  assume "os_environ w ''ECS_CONTAINER_METADATA_URI_V4'' = None \<or>
          os_environ w ''ECS_CONTAINER_METADATA_URI_V4'' = Some []"
  then have "metadata_try w = Inr None"
    using metadata_try_unset metadata_try_empty by blast
  then show "\<exists>t. test_connectivity w = Inr [t] \<and> test t = ''internet_connectivity''"
    by (simp add: test_connectivity_skipped test_first_entry)
next
  assume h: "os_environ w ''ECS_CONTAINER_METADATA_URI_V4'' = Some base \<and> base \<noteq> []"
  note raises = metadata_try_raises [of w base] fetch_json_raises [of w "base @ ''/task''" 5]
  from h metadata_try_set [of w base] consider
    e where "metadata_try w = Inl e"
    | payload where "metadata_try w = Inr (Some (success_entry ''ecs_metadata'' payload))"
    by blast
  then show "\<exists>t1 t2. test_connectivity w = Inr [t1, t2] \<and>
         test t1 = ''internet_connectivity'' \<and> test t2 = ''ecs_metadata'' \<and>
         (status t2 = ''failed'') = isl (metadata_try w) \<and>
         (status t2 = ''success'') = (\<not> isl (metadata_try w)) \<and>
         isl (metadata_try w) =
           (case fetch_json w (base @ ''/task'') 5 of
              Inl e \<Rightarrow> True
            | Inr v \<Rightarrow> (\<forall>d. v \<noteq> JObject d)) \<and>
         isl (fetch_json w (base @ ''/task'') 5) =
           (case urlopen w (base @ ''/task'') 5 of
              Inl e \<Rightarrow> True
            | Inr response \<Rightarrow>
                (case read response of
                   Inl e \<Rightarrow> True
                 | Inr body \<Rightarrow>
                     (case bytes_decode w body of
                        Inl e \<Rightarrow> True
                      | Inr text \<Rightarrow> isl (json_loads w text))))"
  proof cases
    case 1
    have "test_connectivity w = Inr [first_entry w, failed_entry ''ecs_metadata'' e]"
      using 1 by (rule test_connectivity_raised)
    moreover have "isl (metadata_try w)" using 1 by simp
    ultimately show ?thesis
      using raises h by (simp add: test_first_entry failed_entry_def)
  next
    case 2
    have "test_connectivity w = Inr [first_entry w, success_entry ''ecs_metadata'' payload]"
      using 2 by (rule test_connectivity_appended)
    moreover have "\<not> isl (metadata_try w)" using 2 by simp
    ultimately show ?thesis
      using raises h by (simp add: test_first_entry success_entry_def)
  qed
qed

theorem test_connectivity_entry_count_witness:
  "os_environ sample_world ''ECS_CONTAINER_METADATA_URI_V4'' = None \<and>
   (\<exists>t. test_connectivity sample_world = Inr [t] \<and> test t = ''internet_connectivity'') \<and>
   os_environ (with_environ list_uri) ''ECS_CONTAINER_METADATA_URI_V4'' =
     Some ''http://169.254.170.2/v4/list'' \<and>
   (\<exists>t1 t2. test_connectivity (with_environ list_uri) = Inr [t1, t2] \<and>
      test t2 = ''ecs_metadata'' \<and> status t2 = ''failed'') \<and>
   os_environ (with_environ task_uri) ''ECS_CONTAINER_METADATA_URI_V4'' =
     Some ''http://169.254.170.2/v4/abc'' \<and>
   (\<exists>t1 t2. test_connectivity (with_environ task_uri) = Inr [t1, t2] \<and>
      test t2 = ''ecs_metadata'' \<and> status t2 = ''success'')"
proof -
  have unset: "os_environ sample_world ''ECS_CONTAINER_METADATA_URI_V4'' = None"
    by (simp add: sample_world_def)
  have one: "\<exists>t. test_connectivity sample_world = Inr [t] \<and> test t = ''internet_connectivity''"
    using test_connectivity_entry_count [of sample_world "[]"] unset by blast
  have "isl (metadata_try (with_environ list_uri))"
    by (simp add: list_uri_metadata_try)
  then have two_failed: "\<exists>t1 t2. test_connectivity (with_environ list_uri) = Inr [t1, t2] \<and>
      test t2 = ''ecs_metadata'' \<and> status t2 = ''failed''"
    using test_connectivity_entry_count
      [of "with_environ list_uri" "''http://169.254.170.2/v4/list''"] list_uri_environ
    by auto
  have "\<not> isl (metadata_try (with_environ task_uri))"
    using metadata_try_raises [OF task_uri_environ]
    by (simp add: with_environ_fetch_json sample_fetch_task)
  then have two_success: "\<exists>t1 t2. test_connectivity (with_environ task_uri) = Inr [t1, t2] \<and>
      test t2 = ''ecs_metadata'' \<and> status t2 = ''success''"
    using test_connectivity_entry_count
      [of "with_environ task_uri" "''http://169.254.170.2/v4/abc''"] task_uri_environ
    by auto
  show ?thesis
    using unset one list_uri_environ two_failed task_uri_environ two_success by blast
qed

subsection \<open>The payload of the metadata probe\<close>

text \<open>
  Claim C7. When \<^verbatim>\<open>ECS_CONTAINER_METADATA_URI_V4\<close> is set to a URL and the GET of
  \<^verbatim>\<open><base>/task\<close> returns the JSON object with \<^verbatim>\<open>TaskARN\<close> \<^verbatim>\<open>a\<close>, \<^verbatim>\<open>Cluster\<close> \<^verbatim>\<open>c\<close> and
  \<^verbatim>\<open>Family\<close> \<^verbatim>\<open>f\<close> (in any key order), the second entry has status \<^verbatim>\<open>success\<close> and
  its payload is exactly the dict with \<^verbatim>\<open>task_arn\<close> \<^verbatim>\<open>a\<close>, \<^verbatim>\<open>cluster\<close> \<^verbatim>\<open>c\<close> and \<^verbatim>\<open>family\<close>
  \<^verbatim>\<open>f\<close>. The request is made only for a non-empty value of the variable.
\<close>

theorem metadata_payload_exact:
  assumes "os_environ w ''ECS_CONTAINER_METADATA_URI_V4'' = Some base" and "base \<noteq> []"
    and "fetch_json w (base @ ''/task'') 5 = Inr (JObject d)"
    and "map_of d = map_of [(''TaskARN'', JString ''a''), (''Cluster'', JString ''c''),
                            (''Family'', JString ''f'')]"
  shows "\<exists>t1. test_connectivity w =
           Inr [t1, \<lparr> test = ''ecs_metadata'', status = ''success'',
                      result = Some (JObject [(''task_arn'', JString ''a''),
                                              (''cluster'', JString ''c''),
                                              (''family'', JString ''f'')]),
                      error = None \<rparr>]"
proof -
  have "dict_get d ''TaskARN'' = JString ''a''" "dict_get d ''Cluster'' = JString ''c''"
    "dict_get d ''Family'' = JString ''f''"
    using assms(4) by (simp_all add: dict_get_def)
  then have "metadata_try w = Inr (Some (success_entry ''ecs_metadata''
      (JObject [(''task_arn'', JString ''a''), (''cluster'', JString ''c''),
                (''family'', JString ''f'')])))"
    using metadata_try_object [OF assms(1-3)] by simp
  then show ?thesis
    by (simp add: test_connectivity_appended success_entry_def)
qed

theorem metadata_payload_exact_witness:
  "os_environ (with_environ task_uri) ''ECS_CONTAINER_METADATA_URI_V4'' =
     Some ''http://169.254.170.2/v4/abc'' \<and>
   fetch_json (with_environ task_uri) ''http://169.254.170.2/v4/abc/task'' 5 =
     Inr (JObject [(''TaskARN'', JString ''a''), (''Cluster'', JString ''c''),
                   (''Family'', JString ''f'')]) \<and>
   test_connectivity (with_environ task_uri) =
     Inr [\<lparr> test = ''internet_connectivity'', status = ''success'',
            result = Some (JObject [(''origin'', JString ''1.2.3.4'')]), error = None \<rparr>,
          \<lparr> test = ''ecs_metadata'', status = ''success'',
            result = Some (JObject [(''task_arn'', JString ''a''), (''cluster'', JString ''c''),
                                    (''family'', JString ''f'')]),
            error = None \<rparr>]"
proof -
  have fetch: "fetch_json (with_environ task_uri) (''http://169.254.170.2/v4/abc'' @ ''/task'') 5 =
     Inr (JObject [(''TaskARN'', JString ''a''), (''Cluster'', JString ''c''),
                   (''Family'', JString ''f'')])"
    by (simp add: with_environ_fetch_json sample_fetch_task)
  from metadata_payload_exact [OF task_uri_environ _ fetch]
  obtain t1 where t1: "test_connectivity (with_environ task_uri) =
           Inr [t1, \<lparr> test = ''ecs_metadata'', status = ''success'',
                      result = Some (JObject [(''task_arn'', JString ''a''),
                                              (''cluster'', JString ''c''),
                                              (''family'', JString ''f'')]),
                      error = None \<rparr>]"
    by auto
  have "\<exists>t2. test_connectivity (with_environ task_uri) = Inr [first_entry (with_environ task_uri), t2]"
    using metadata_try_set [OF task_uri_environ]
    by (auto simp: test_connectivity_raised test_connectivity_appended)
  with t1 have "t1 = first_entry (with_environ task_uri)" by auto
  with t1 fetch task_uri_environ show ?thesis
    by (simp add: sample_first_entry success_entry_def)
qed

text \<open>
  Claim C10. When the variable is set to a URL and the GET of \<^verbatim>\<open><base>/task\<close> returns any
  JSON object, the second entry has status \<^verbatim>\<open>success\<close> and no error, and its payload
  holds, under \<^verbatim>\<open>task_arn\<close>, \<^verbatim>\<open>cluster\<close> and \<^verbatim>\<open>family\<close>, the values of \<^verbatim>\<open>TaskARN\<close>,
  \<^verbatim>\<open>Cluster\<close> and \<^verbatim>\<open>Family\<close> of the object, with \<^verbatim>\<open>None\<close> (JSON null) for each key the
  object does not have.
\<close>

theorem metadata_missing_keys_success:
  assumes "os_environ w ''ECS_CONTAINER_METADATA_URI_V4'' = Some base" and "base \<noteq> []"
    and "fetch_json w (base @ ''/task'') 5 = Inr (JObject d)"
  shows "\<exists>t1 arn cluster family.
           test_connectivity w =
             Inr [t1, \<lparr> test = ''ecs_metadata'', status = ''success'',
                        result = Some (JObject [(''task_arn'', arn), (''cluster'', cluster),
                                                (''family'', family)]),
                        error = None \<rparr>] \<and>
           arn = (case map_of d ''TaskARN'' of None \<Rightarrow> JNull | Some v \<Rightarrow> v) \<and>
           cluster = (case map_of d ''Cluster'' of None \<Rightarrow> JNull | Some v \<Rightarrow> v) \<and>
           family = (case map_of d ''Family'' of None \<Rightarrow> JNull | Some v \<Rightarrow> v) \<and>
           (''TaskARN'' \<notin> fst ` set d \<longrightarrow> arn = JNull) \<and>
           (''Cluster'' \<notin> fst ` set d \<longrightarrow> cluster = JNull) \<and>
           (''Family'' \<notin> fst ` set d \<longrightarrow> family = JNull)"
proof -
  have missing: "\<And>k. k \<notin> fst ` set d \<Longrightarrow> map_of d k = None"
    by (simp add: map_of_eq_None_iff)
  have "test_connectivity w =
      Inr [first_entry w, success_entry ''ecs_metadata''
        (JObject [(''task_arn'', dict_get d ''TaskARN''), (''cluster'', dict_get d ''Cluster''),
                  (''family'', dict_get d ''Family'')])]"
    using metadata_try_object [OF assms] by (rule test_connectivity_appended)
  then show ?thesis
    using missing by (auto simp: success_entry_def dict_get_def)
qed

theorem metadata_missing_keys_success_witness:
  "os_environ (with_environ bare_uri) ''ECS_CONTAINER_METADATA_URI_V4'' =
     Some ''http://169.254.170.2/v4/empty'' \<and>
   fetch_json (with_environ bare_uri) ''http://169.254.170.2/v4/empty/task'' 5 =
     Inr (JObject []) \<and>
   (\<exists>t1. test_connectivity (with_environ bare_uri) =
     Inr [t1, \<lparr> test = ''ecs_metadata'', status = ''success'',
                result = Some (JObject [(''task_arn'', JNull), (''cluster'', JNull),
                                        (''family'', JNull)]),
                error = None \<rparr>])"
proof -
  have fetch: "fetch_json (with_environ bare_uri) (''http://169.254.170.2/v4/empty'' @ ''/task'') 5 =
     Inr (JObject [])"
    by (simp add: with_environ_fetch_json sample_fetch_bare)
  from metadata_missing_keys_success [OF bare_uri_environ _ fetch]
  have "\<exists>t1. test_connectivity (with_environ bare_uri) =
     Inr [t1, \<lparr> test = ''ecs_metadata'', status = ''success'',
                result = Some (JObject [(''task_arn'', JNull), (''cluster'', JNull),
                                        (''family'', JNull)]),
                error = None \<rparr>]"
    by auto
  with fetch bare_uri_environ show ?thesis by simp
qed

subsection \<open>The gigabyte fields\<close>

text \<open>
  Claim C6, as stated, fails: the code calls \<^verbatim>\<open>round(x, 2)\<close>, which keeps two decimal
  places, not three significant figures. A root file system of 123456789012 bytes is
  114.978... GB; the record holds 114.98, and rounding to three significant figures
  would give 115.
\<close>

theorem gb_rounding_counterexample:
  "psutil_disk_usage sample_world ''/'' =
     Inr \<lparr> disk_total = 123456789012, disk_used = 30864197253 \<rparr> \<and>
   check_resources sample_world =
     Inr \<lparr> cpu_percent = 25 / 2, memory_total_gb = 8, memory_used_gb = 2,
           memory_percent = 131 / 5, disk_total_gb = 11498 / 100, disk_used_gb = 2874 / 100,
           disk_percent = 25 \<rparr> \<and>
   round_significant (bytes_to_gb 123456789012) 3 = 115"
  by (simp add: sample_disk_usage sample_check_resources round_significant_sample)

text \<open>
  Claim C6, amended. Every gigabyte field of the record (memory total and used, disk total
  and used) is the byte counter divided by \<open>1024 ^ 3\<close> and rounded to two decimal places:
  it is \<^verbatim>\<open>round(n / 1024**3, 2)\<close>, a multiple of one hundredth at distance at most
  half a hundredth of the quotient.
\<close>

theorem gb_fields_two_decimals:
  assumes "check_resources w = Inr r"
  shows "\<exists>memory disk.
           psutil_virtual_memory w = Inr memory \<and> psutil_disk_usage w ''/'' = Inr disk \<and>
           memory_total_gb r = py_round (rat_of_nat (mem_total memory) / 1024 ^ 3) 2 \<and>
           memory_used_gb r = py_round (rat_of_nat (mem_used memory) / 1024 ^ 3) 2 \<and>
           disk_total_gb r = py_round (rat_of_nat (disk_total disk) / 1024 ^ 3) 2 \<and>
           disk_used_gb r = py_round (rat_of_nat (disk_used disk) / 1024 ^ 3) 2 \<and>
           nearest_hundredth (rat_of_nat (mem_total memory) / 1024 ^ 3) (memory_total_gb r) \<and>
           nearest_hundredth (rat_of_nat (mem_used memory) / 1024 ^ 3) (memory_used_gb r) \<and>
           nearest_hundredth (rat_of_nat (disk_total disk) / 1024 ^ 3) (disk_total_gb r) \<and>
           nearest_hundredth (rat_of_nat (disk_used disk) / 1024 ^ 3) (disk_used_gb r)"
proof -
  from assms obtain cpu memory disk where
    "psutil_virtual_memory w = Inr memory" and "psutil_disk_usage w ''/'' = Inr disk"
    and "r = \<lparr> cpu_percent = cpu,
               memory_total_gb = py_round (bytes_to_gb (mem_total memory)) 2,
               memory_used_gb = py_round (bytes_to_gb (mem_used memory)) 2,
               memory_percent = percent_value (mem_percent memory),
               disk_total_gb = py_round (bytes_to_gb (disk_total disk)) 2,
               disk_used_gb = py_round (bytes_to_gb (disk_used disk)) 2,
               disk_percent =
                 py_round (rat_of_nat (disk_used disk) / rat_of_nat (disk_total disk) * 100) 2 \<rparr>"
    by (rule check_resources_Inr)
  then show ?thesis
    using py_round_nearest by (simp add: bytes_to_gb_def)
qed

theorem gb_fields_two_decimals_witness:
  "check_resources sample_world =
     Inr \<lparr> cpu_percent = 25 / 2, memory_total_gb = 8, memory_used_gb = 2,
           memory_percent = 131 / 5, disk_total_gb = 11498 / 100, disk_used_gb = 2874 / 100,
           disk_percent = 25 \<rparr> \<and>
   nearest_hundredth (8589934592 / 1024 ^ 3) 8 \<and>
   nearest_hundredth (2147483648 / 1024 ^ 3) 2 \<and>
   nearest_hundredth (123456789012 / 1024 ^ 3) (11498 / 100) \<and>
   nearest_hundredth (30864197253 / 1024 ^ 3) (2874 / 100)"
  using gb_fields_two_decimals [OF sample_check_resources]
  by (simp add: sample_check_resources sample_disk_usage sample_virtual_memory)


subsection \<open>Bounds of the resource record\<close>



end
